theory Spec2Isabelle
  imports Main
begin

section \<open>Strings\<close>

text \<open>
  A JavaScript string is modelled as a \<open>string\<close>: the list of the bytes of its UTF-8
  encoding. The scripts only concatenate strings, compare them for equality and search them
  for ASCII substrings, so the width of a character plays no part. The pictographs of the
  messages are written as their UTF-8 bytes.
\<close>

definition cross_mark :: string where
  "cross_mark = [CHR 0xE2, CHR 0x9D, CHR 0x8C]"

definition check_mark :: string where
  "check_mark = [CHR 0xE2, CHR 0x9C, CHR 0x85]"

definition magnifying_glass :: string where
  "magnifying_glass = [CHR 0xF0, CHR 0x9F, CHR 0x94, CHR 0x8D]"

definition party_popper :: string where
  "party_popper = [CHR 0xF0, CHR 0x9F, CHR 0x8E, CHR 0x89]"

definition clipboard :: string where
  "clipboard = [CHR 0xF0, CHR 0x9F, CHR 0x93, CHR 0x8B]"

definition memo :: string where
  "memo = [CHR 0xF0, CHR 0x9F, CHR 0x93, CHR 0x9D]"

definition link_symbol :: string where
  "link_symbol = [CHR 0xF0, CHR 0x9F, CHR 0x94, CHR 0x97]"

definition open_book :: string where
  "open_book = [CHR 0xF0, CHR 0x9F, CHR 0x93, CHR 0x96]"

definition rocket :: string where
  "rocket = [CHR 0xF0, CHR 0x9F, CHR 0x9A, CHR 0x80]"

definition newline :: string where
  "newline = [CHR 0x0A]"

definition dquote :: string where
  "dquote = [CHR 0x22]"

text \<open>\<open>String.prototype.startsWith\<close> and \<open>String.prototype.includes\<close> (here
  \<open>includes_str\<close>): the search string occurs at the start of, respectively somewhere
  in, the string. The empty search string occurs in every string.\<close>

fun startsWith :: "string \<Rightarrow> string \<Rightarrow> bool" where
  "startsWith s [] = True"
| "startsWith [] (c # cs) = False"
| "startsWith (d # ds) (c # cs) = (d = c \<and> startsWith ds cs)"

fun includes_str :: "string \<Rightarrow> string \<Rightarrow> bool" where
  "includes_str [] searchString = (searchString = [])"
| "includes_str (d # ds) searchString =
     (startsWith (d # ds) searchString \<or> includes_str ds searchString)"

section \<open>The validation tool: environment variables\<close>

record ValidationResult =
  success :: bool
  message :: string

text \<open>\<open>process.env\<close> after the \<open>.env\<close> file has been loaded: a variable is unset
  (\<open>None\<close>) or holds a string.\<close>

type_synonym environment = "string \<rightharpoonup> string"

definition requiredVars :: "string list" where
  "requiredVars = [''GOOGLE_CLIENT_ID'', ''GOOGLE_CLIENT_SECRET'', ''GOOGLE_CALLBACK_URL'']"

text \<open>The condition of the \<open>else if\<close> of \<open>validateEnvironmentVariables\<close>.\<close>

definition placeholder_condition :: "string \<Rightarrow> bool" where
  "placeholder_condition v =
     (includes_str v ''your_'' \<or>
      includes_str v ''_here'' \<or>
      v = ''your_google_client_id'' \<or>
      v = ''your_google_client_secret'')"

text \<open>The body of the \<open>for\<close> loop: the result pushed for one variable name. The test
  \<open>!value\<close> holds of an unset variable and of the empty string.\<close>

definition envVarResult :: "string \<Rightarrow> string option \<Rightarrow> ValidationResult" where
  "envVarResult varName val =
     (if val = None \<or> val = Some [] then
        \<lparr>success = False,
         message = cross_mark @ '' Missing required environment variable: '' @ varName\<rparr>
      else if placeholder_condition (the val) then
        \<lparr>success = False,
         message = cross_mark @ '' Environment variable '' @ varName @
           '' contains placeholder value. Please update with actual Google OAuth credentials.''\<rparr>
      else
        \<lparr>success = True,
         message = check_mark @ '' '' @ varName @ '' is configured''\<rparr>)"

text \<open>The loop over the variable names, pushing onto \<open>results\<close>.\<close>

fun validateEnvironmentVariables_loop ::
  "environment \<Rightarrow> string list \<Rightarrow> ValidationResult list \<Rightarrow> ValidationResult list" where
  "validateEnvironmentVariables_loop env [] results = results"
| "validateEnvironmentVariables_loop env (varName # rest) results =
     validateEnvironmentVariables_loop env rest (results @ [envVarResult varName (env varName)])"

definition validateEnvironmentVariables :: "environment \<Rightarrow> ValidationResult list" where
  "validateEnvironmentVariables env = validateEnvironmentVariables_loop env requiredVars []"

text \<open>The placeholder test reduced to its two substring searches, to be compared with
  \<open>placeholder_condition\<close>.\<close>

definition placeholder_substrings_only :: "string \<Rightarrow> bool" where
  "placeholder_substrings_only v = (includes_str v ''your_'' \<or> includes_str v ''_here'')"

section \<open>Exceptions\<close>

text \<open>A thrown value is an \<open>Error\<close> object with its \<open>message\<close>. A computation that may
  throw returns \<open>Inl\<close> of the thrown value, or \<open>Inr\<close> of its result; \<open>try_catch\<close> runs
  the handler on what the block throws.\<close>

datatype js_error = Error (error_message: string)

definition try_catch :: "js_error + 'a \<Rightarrow> (js_error \<Rightarrow> js_error + 'a) \<Rightarrow> js_error + 'a" where
  "try_catch block handler = (case block of Inl thrown \<Rightarrow> handler thrown | Inr v \<Rightarrow> Inr v)"

section \<open>The validation tool: callback URL\<close>

text \<open>The platform's \<open>URL\<close> class is not part of the repository. The check takes the
  constructor \<open>new URL(...)\<close> as a parameter \<open>new_URL\<close>: it throws, or it returns an
  object of which the check reads the \<open>pathname\<close>.\<close>

record URL =
  pathname :: string

definition validateCallbackUrl ::
  "(string \<Rightarrow> js_error + URL) \<Rightarrow> environment \<Rightarrow> js_error + ValidationResult" where
  "validateCallbackUrl new_URL env =
     (let callbackUrl = env ''GOOGLE_CALLBACK_URL'' in
      if callbackUrl = None \<or> callbackUrl = Some [] then
        Inr \<lparr>success = False, message = cross_mark @ '' GOOGLE_CALLBACK_URL is not set''\<rparr>
      else
        try_catch
          (case new_URL (the callbackUrl) of
             Inl thrown \<Rightarrow> Inl thrown
           | Inr url \<Rightarrow>
               if \<not> includes_str (pathname url) ''/auth/callback'' then
                 Inr \<lparr>success = False,
                      message = cross_mark @
                        '' GOOGLE_CALLBACK_URL should end with '/auth/callback', got: '' @
                        pathname url\<rparr>
               else
                 Inr \<lparr>success = True,
                      message = check_mark @ '' GOOGLE_CALLBACK_URL is properly formatted: '' @
                        the callbackUrl\<rparr>)
          (\<lambda>error.
             Inr \<lparr>success = False,
                  message = cross_mark @ '' GOOGLE_CALLBACK_URL is not a valid URL: '' @
                    the callbackUrl\<rparr>))"

text \<open>What the platform's constructor gives at the inputs of the examples below: the path of
  three well-formed URLs, and a thrown error at \<open>not-a-url\<close>. Every other input is left out
  of the table (the theorems hold for every constructor and do not use the table; it serves
  the examples only).\<close>

definition example_URL :: "string \<Rightarrow> js_error + URL" where
  "example_URL s =
     (if s = ''http://localhost:8000/auth/callback'' then Inr \<lparr>pathname = ''/auth/callback''\<rparr>
      else if s = ''http://localhost:8000/wrong/path'' then Inr \<lparr>pathname = ''/wrong/path''\<rparr>
      else if s = ''https://shop.example/api/auth/callback/google?prompt=none'' then
        Inr \<lparr>pathname = ''/api/auth/callback/google''\<rparr>
      else Inl (Error ''Invalid URL''))"

section \<open>The callback-URL check inside a process\<close>

text \<open>
  To speak of two evaluations, one after the other, the check is also written as a step on the
  state of the process: \<open>process_env\<close> is \<open>process.env\<close>, which any code could change,
  and \<open>platform\<close> is whatever else the platform keeps. The URL constructor gets the state
  and returns the state it leaves, so a constructor with a memory, or one that touches the
  environment, is a possible parameter.
\<close>

record 'w process =
  process_env :: environment
  platform :: 'w

definition validateCallbackUrl_run ::
  "(string \<Rightarrow> 'w process \<Rightarrow> (js_error + URL) \<times> 'w process) \<Rightarrow> 'w process \<Rightarrow>
   (js_error + ValidationResult) \<times> 'w process" where
  "validateCallbackUrl_run new_URL p =
     (let callbackUrl = process_env p ''GOOGLE_CALLBACK_URL'' in
      if callbackUrl = None \<or> callbackUrl = Some [] then
        (Inr \<lparr>success = False, message = cross_mark @ '' GOOGLE_CALLBACK_URL is not set''\<rparr>,
         p)
      else
        (let (constructed, p') = new_URL (the callbackUrl) p in
         (try_catch
            (case constructed of
               Inl thrown \<Rightarrow> Inl thrown
             | Inr url \<Rightarrow>
                 if \<not> includes_str (pathname url) ''/auth/callback'' then
                   Inr \<lparr>success = False,
                        message = cross_mark @
                          '' GOOGLE_CALLBACK_URL should end with '/auth/callback', got: '' @
                          pathname url\<rparr>
                 else
                   Inr \<lparr>success = True,
                        message = check_mark @
                          '' GOOGLE_CALLBACK_URL is properly formatted: '' @
                          the callbackUrl\<rparr>)
            (\<lambda>error.
               Inr \<lparr>success = False,
                    message = cross_mark @ '' GOOGLE_CALLBACK_URL is not a valid URL: '' @
                      the callbackUrl\<rparr>),
          p')))"

section \<open>UTF-8\<close>

text \<open>
  A file holds bytes. Reading with the encoding \<open>"utf8"\<close> decodes them: a well-formed
  sequence stays as it is, and every maximal ill-formed part becomes one replacement
  character U+FFFD (the bytes EF BF BD), as the UTF-8 decoder of the Encoding Standard
  prescribes. The second byte of a sequence has the narrower bounds given by
  \<open>second_lower\<close> and \<open>second_upper\<close>; every later byte lies in 80..BF. No byte order
  mark is removed.
\<close>

definition in_range :: "char \<Rightarrow> nat \<Rightarrow> nat \<Rightarrow> bool" where
  "in_range b lo hi = (lo \<le> of_char b \<and> of_char b \<le> hi)"

definition second_lower :: "char \<Rightarrow> nat" where
  "second_lower b = (if b = CHR 0xE0 then 0xA0 else if b = CHR 0xF0 then 0x90 else 0x80)"

definition second_upper :: "char \<Rightarrow> nat" where
  "second_upper b = (if b = CHR 0xED then 0x9F else if b = CHR 0xF4 then 0x8F else 0xBF)"

definition replacement :: string where
  "replacement = [CHR 0xEF, CHR 0xBF, CHR 0xBD]"

fun utf8_decode :: "char list \<Rightarrow> string" where
  "utf8_decode [] = []"
| "utf8_decode (b # bs) =
     (if in_range b 0x00 0x7F then b # utf8_decode bs
      else if in_range b 0xC2 0xDF then
        (case bs of
           [] \<Rightarrow> replacement
         | c # cs \<Rightarrow>
             if in_range c 0x80 0xBF then b # c # utf8_decode cs
             else replacement @ utf8_decode bs)
      else if in_range b 0xE0 0xEF then
        (case bs of
           [] \<Rightarrow> replacement
         | c # cs \<Rightarrow>
             if in_range c (second_lower b) (second_upper b) then
               (case cs of
                  [] \<Rightarrow> replacement
                | d # ds \<Rightarrow>
                    if in_range d 0x80 0xBF then b # c # d # utf8_decode ds
                    else replacement @ utf8_decode cs)
             else replacement @ utf8_decode bs)
      else if in_range b 0xF0 0xF4 then
        (case bs of
           [] \<Rightarrow> replacement
         | c # cs \<Rightarrow>
             if in_range c (second_lower b) (second_upper b) then
               (case cs of
                  [] \<Rightarrow> replacement
                | d # ds \<Rightarrow>
                    if in_range d 0x80 0xBF then
                      (case ds of
                         [] \<Rightarrow> replacement
                       | e # es \<Rightarrow>
                           if in_range e 0x80 0xBF then b # c # d # e # utf8_decode es
                           else replacement @ utf8_decode ds)
                    else replacement @ utf8_decode cs)
             else replacement @ utf8_decode bs)
      else replacement @ utf8_decode bs)"

text \<open>Writing a string stores its UTF-8 encoding; a string of the model is the list of
  those bytes already.\<close>

definition utf8_encode :: "string \<Rightarrow> char list" where
  "utf8_encode text = text"

text \<open>The well-formed UTF-8 byte sequences (the table of the Unicode Standard).\<close>

fun valid_utf8 :: "char list \<Rightarrow> bool" where
  "valid_utf8 [] = True"
| "valid_utf8 (b # bs) =
     (if in_range b 0x00 0x7F then valid_utf8 bs
      else if in_range b 0xC2 0xDF then
        (case bs of
           c # cs \<Rightarrow> in_range c 0x80 0xBF \<and> valid_utf8 cs
         | _ \<Rightarrow> False)
      else if in_range b 0xE0 0xEF then
        (case bs of
           c # d # ds \<Rightarrow>
             in_range c (second_lower b) (second_upper b) \<and> in_range d 0x80 0xBF \<and>
             valid_utf8 ds
         | _ \<Rightarrow> False)
      else if in_range b 0xF0 0xF4 then
        (case bs of
           c # d # e # es \<Rightarrow>
             in_range c (second_lower b) (second_upper b) \<and> in_range d 0x80 0xBF \<and>
             in_range e 0x80 0xBF \<and> valid_utf8 es
         | _ \<Rightarrow> False)
      else False)"

section \<open>The filesystem\<close>

text \<open>
  The state of the filesystem, as the two tools see it through \<open>existsSync\<close>,
  \<open>readFileSync(path, "utf8")\<close> and \<open>writeFileSync(path, text)\<close>. All three follow
  symbolic links: \<open>link_target\<close> gives the path that a path leads to (the path itself where
  no link is involved), and \<open>files\<close> gives what is stored there: the bytes of a file, or
  something that cannot be read (no permission, a directory), with the error that reading it
  throws. A link whose target holds nothing does not exist for \<open>existsSync\<close>, and writing
  to it creates the target. \<open>write_error\<close> gives, for a path that cannot be written, the
  error the write throws; a failed write leaves the filesystem as it was.
\<close>

datatype file_node = Bytes "char list" | Unreadable js_error

record filesystem =
  link_target :: "string \<Rightarrow> string"
  files :: "string \<rightharpoonup> file_node"
  write_error :: "string \<rightharpoonup> js_error"

definition existsSync :: "filesystem \<Rightarrow> string \<Rightarrow> bool" where
  "existsSync fs path = (files fs (link_target fs path) \<noteq> None)"

definition readFileSync :: "filesystem \<Rightarrow> string \<Rightarrow> js_error + string" where
  "readFileSync fs path =
     (case files fs (link_target fs path) of
        None \<Rightarrow> Inl (Error ''ENOENT: no such file or directory'')
      | Some (Bytes bytes) \<Rightarrow> Inr (utf8_decode bytes)
      | Some (Unreadable thrown) \<Rightarrow> Inl thrown)"

definition writeFileSync :: "filesystem \<Rightarrow> string \<Rightarrow> string \<Rightarrow> js_error + filesystem" where
  "writeFileSync fs path content =
     (case write_error fs path of
        Some thrown \<Rightarrow> Inl thrown
      | None \<Rightarrow>
          Inr (fs\<lparr>files := (files fs)(link_target fs path \<mapsto> Bytes (utf8_encode content))\<rparr>))"

text \<open>\<open>resolve(process.cwd(), name)\<close> for the file names the tools pass: the working
  directory \<open>cwd\<close> is an absolute path, the name is a plain file name (POSIX paths).\<close>

definition resolve :: "string \<Rightarrow> string \<Rightarrow> string" where
  "resolve cwd name = (if cwd = ''/'' then cwd @ name else cwd @ ''/'' @ name)"

section \<open>The validation tool: configuration file\<close>

definition checkConfigFile :: "string \<Rightarrow> filesystem \<Rightarrow> js_error + ValidationResult" where
  "checkConfigFile cwd fs =
     try_catch
       (let configPath = resolve cwd ''medusa-config.ts'' in
        if \<not> existsSync fs configPath then
          Inr \<lparr>success = False, message = cross_mark @ '' medusa-config.ts file not found''\<rparr>
        else
          (case readFileSync fs configPath of
             Inl thrown \<Rightarrow> Inl thrown
           | Inr configContent \<Rightarrow>
               if includes_str configContent ''@medusajs/medusa/auth-google'' then
                 Inr \<lparr>success = True,
                      message = check_mark @
                        '' Google Auth Module is configured in medusa-config.ts''\<rparr>
               else
                 Inr \<lparr>success = False,
                      message = cross_mark @
                        '' Google Auth Module not found in medusa-config.ts''\<rparr>))
       (\<lambda>error.
          Inr \<lparr>success = False,
               message = cross_mark @ '' Error reading medusa-config.ts: '' @
                 error_message error\<rparr>)"

section \<open>The validation tool: report and verdict\<close>

text \<open>The console: the calls of \<open>console.log\<close> and \<open>console.error\<close>, in order, with
  their arguments.\<close>

datatype console_call =
  Console_log string
| Console_error string js_error
| Console_error_only js_error

text \<open>The decimal digits a template literal gives for a length.\<close>

fun number_toString :: "nat \<Rightarrow> string" where
  "number_toString n =
     (if n < 10 then [''0123456789'' ! n]
      else number_toString (n div 10) @ [''0123456789'' ! (n mod 10)])"

text \<open>What a run of \<open>main\<close> leaves: the value of its local \<open>allResults\<close> (bound as
  \<open>results\<close> in the definition), the console and the code passed to \<open>process.exit\<close>.\<close>

record main_run =
  allResults :: "ValidationResult list"
  console :: "console_call list"
  exit_code :: int

definition main ::
  "(string \<Rightarrow> js_error + URL) \<Rightarrow> environment \<Rightarrow> string \<Rightarrow> filesystem \<Rightarrow> js_error + main_run" where
  "main new_URL env cwd fs =
     (let envResults = validateEnvironmentVariables env in
      case validateCallbackUrl new_URL env of
        Inl thrown \<Rightarrow> Inl thrown
      | Inr callbackResult \<Rightarrow>
          (case checkConfigFile cwd fs of
             Inl thrown \<Rightarrow> Inl thrown
           | Inr configResult \<Rightarrow>
               (let results = envResults @ [callbackResult, configResult];
                    report =
                      [Console_log (magnifying_glass @
                         '' Validating Google Auth Integration...'' @ newline),
                       Console_log ''Environment Variables:''] @
                      map (\<lambda>result. Console_log (''  '' @ message result)) envResults @
                      [Console_log (newline @ ''Callback URL:''),
                       Console_log (''  '' @ message callbackResult),
                       Console_log (newline @ ''Configuration:''),
                       Console_log (''  '' @ message configResult)];
                    failedResults = filter (\<lambda>result. \<not> success result) results
                in
                  if length failedResults = 0 then
                    Inr \<lparr>allResults = results,
                         console = report @
                           [Console_log (newline @ party_popper @
                              '' All validations passed! Google Auth integration is properly configured.''),
                            Console_log (newline @ ''Next steps:''),
                            Console_log ''1. Start your Medusa backend: bun run dev'',
                            Console_log
                              ''2. Start your storefront: cd ../joyjunction-storefront && bun run dev'',
                            Console_log
                              ''3. Visit http://localhost:8000/account and test Google Sign-In''],
                         exit_code = 0\<rparr>
                  else
                    Inr \<lparr>allResults = results,
                         console = report @
                           [Console_log (newline @ cross_mark @ '' '' @
                              number_toString (length failedResults) @
                              '' validation(s) failed. Please fix the issues above.''),
                            Console_log (newline @ ''Common fixes:''),
                            Console_log
                              ''- Copy .env.template to .env and fill in your Google OAuth credentials'',
                            Console_log ''- Ensure GOOGLE_CALLBACK_URL ends with /auth/callback'',
                            Console_log ''- Get Google OAuth credentials from Google Cloud Console'',
                            Console_log (newline @
                              ''For detailed setup instructions, see: ../GOOGLE_AUTH_SETUP.md'')],
                         exit_code = 1\<rparr>)))"

section \<open>The setup tool\<close>

text \<open>\<open>createEnvFile\<close> returns the console calls it made and the filesystem it leaves.\<close>

definition createEnvFile ::
  "string \<Rightarrow> filesystem \<Rightarrow> js_error + console_call list \<times> filesystem" where
  "createEnvFile cwd fs =
     (let envPath = resolve cwd ''.env'';
          templatePath = resolve cwd ''.env.template'';
          checking =
            [Console_log (''Checking for .env file at: '' @ envPath),
             Console_log (''Checking for .env.template file at: '' @ templatePath)]
      in
        if existsSync fs envPath then
          Inr (checking @
               [Console_log (clipboard @
                  '' .env file already exists. Please manually update it with your Google OAuth credentials.''),
                Console_log
                  ''   Required variables: GOOGLE_CLIENT_ID, GOOGLE_CLIENT_SECRET, GOOGLE_CALLBACK_URL''],
               fs)
        else if \<not> existsSync fs templatePath then
          Inr (checking @
               [Console_log (cross_mark @
                  '' .env.template file not found. Please ensure you are in the correct directory.'')],
               fs)
        else
          try_catch
            (case readFileSync fs templatePath of
               Inl thrown \<Rightarrow> Inl thrown
             | Inr templateContent \<Rightarrow>
                 (case writeFileSync fs envPath templateContent of
                    Inl thrown \<Rightarrow> Inl thrown
                  | Inr fs' \<Rightarrow>
                      Inr (checking @
                           [Console_log (check_mark @ '' Created .env file from template''),
                            Console_log (memo @
                              '' Please update the following variables in your .env file:''),
                            Console_log ''   - GOOGLE_CLIENT_ID: Your Google OAuth Client ID'',
                            Console_log
                              ''   - GOOGLE_CLIENT_SECRET: Your Google OAuth Client Secret'',
                            Console_log
                              ''   - GOOGLE_CALLBACK_URL: Usually http://localhost:8000/auth/callback for development'',
                            Console_log [],
                            Console_log (link_symbol @
                              '' Get these credentials from: https://console.cloud.google.com/apis/credentials''),
                            Console_log (open_book @
                              '' For detailed setup instructions, see: ../GOOGLE_AUTH_SETUP.md'')],
                           fs')))
            (\<lambda>error.
               Inr (checking @ [Console_error (cross_mark @ '' Error creating .env file:'') error],
                    fs)))"

text \<open>The setup tool's \<open>main\<close> (here \<open>setup_main\<close>); the \<open>catch\<close> of the promise logs
  what \<open>createEnvFile\<close> throws.\<close>

definition setup_main :: "string \<Rightarrow> filesystem \<Rightarrow> console_call list \<times> filesystem" where
  "setup_main cwd fs =
     (let banner = Console_log (rocket @ '' Google Auth Setup Utility'' @ newline) in
      case createEnvFile cwd fs of
        Inl thrown \<Rightarrow> ([banner, Console_error_only thrown], fs)
      | Inr (calls, fs') \<Rightarrow>
          ([banner] @ calls @
           [Console_log (newline @ magnifying_glass @ '' Run '' @ dquote @
              ''bun validate-google-auth.ts'' @ dquote @
              '' after updating your .env file to validate the configuration.'')],
           fs'))"

section \<open>Example inputs\<close>

text \<open>An environment with one variable unset, one left at its template value and one filled
  in; and one with all three filled in.\<close>

definition example_env_mixed :: environment where
  "example_env_mixed =
     [''GOOGLE_CLIENT_SECRET'' \<mapsto> ''your_google_client_secret'',
      ''GOOGLE_CALLBACK_URL'' \<mapsto> ''http://localhost:8000/auth/callback'']"

definition example_env_filled :: environment where
  "example_env_filled =
     [''GOOGLE_CLIENT_ID'' \<mapsto> ''1234-abcd.apps.googleusercontent.com'',
      ''GOOGLE_CLIENT_SECRET'' \<mapsto> ''GOCSPX-q1w2e3r4'',
      ''GOOGLE_CALLBACK_URL'' \<mapsto> ''http://localhost:8000/auth/callback'']"

text \<open>Filesystems under the working directory \<open>/app\<close>, without links unless said: one
  whose configuration file registers the module, an empty one, one whose configuration file
  cannot be read, one with the template only, that one after the copy, one whose template
  cannot be read, one whose template is not UTF-8 (the bytes FF 41 0A) with what the copy
  leaves, and one where \<open>.env\<close> is a link to a file that does not exist yet, with what the
  copy leaves.\<close>

definition example_fs_configured :: filesystem where
  "example_fs_configured =
     \<lparr>link_target = (\<lambda>path. path),
      files = [''/app/medusa-config.ts'' \<mapsto>
         Bytes ''modules: [{ resolve: '@medusajs/medusa/auth-google' , options: {} }]''],
      write_error = Map.empty\<rparr>"

definition example_fs_empty :: filesystem where
  "example_fs_empty =
     \<lparr>link_target = (\<lambda>path. path), files = Map.empty, write_error = Map.empty\<rparr>"

definition example_fs_unreadable_config :: filesystem where
  "example_fs_unreadable_config =
     \<lparr>link_target = (\<lambda>path. path),
      files = [''/app/medusa-config.ts'' \<mapsto> Unreadable (Error ''EACCES: permission denied'')],
      write_error = Map.empty\<rparr>"

definition example_template :: "char list" where
  "example_template =
     ''GOOGLE_CLIENT_ID=your_google_client_id'' @ newline @
     ''GOOGLE_CLIENT_SECRET=your_google_client_secret'' @ newline @
     ''GOOGLE_CALLBACK_URL=http://localhost:8000/auth/callback'' @ newline"

definition example_fs_template :: filesystem where
  "example_fs_template =
     \<lparr>link_target = (\<lambda>path. path),
      files = [''/app/.env.template'' \<mapsto> Bytes example_template],
      write_error = Map.empty\<rparr>"

definition example_fs_copied :: filesystem where
  "example_fs_copied =
     \<lparr>link_target = (\<lambda>path. path),
      files = [''/app/.env.template'' \<mapsto> Bytes example_template,
               ''/app/.env'' \<mapsto> Bytes example_template],
      write_error = Map.empty\<rparr>"

definition example_fs_unreadable_template :: filesystem where
  "example_fs_unreadable_template =
     \<lparr>link_target = (\<lambda>path. path),
      files = [''/app/.env.template'' \<mapsto> Unreadable (Error ''EACCES: permission denied'')],
      write_error = Map.empty\<rparr>"

definition example_fs_not_utf8 :: filesystem where
  "example_fs_not_utf8 =
     \<lparr>link_target = (\<lambda>path. path),
      files = [''/app/.env.template'' \<mapsto> Bytes [CHR 0xFF, CHR 0x41, CHR 0x0A]],
      write_error = Map.empty\<rparr>"

definition example_fs_not_utf8_copied :: filesystem where
  "example_fs_not_utf8_copied =
     \<lparr>link_target = (\<lambda>path. path),
      files = [''/app/.env.template'' \<mapsto> Bytes [CHR 0xFF, CHR 0x41, CHR 0x0A],
               ''/app/.env'' \<mapsto> Bytes [CHR 0xEF, CHR 0xBF, CHR 0xBD, CHR 0x41, CHR 0x0A]],
      write_error = Map.empty\<rparr>"

definition example_fs_link :: filesystem where
  "example_fs_link =
     \<lparr>link_target = (\<lambda>path. if path = ''/app/.env'' then ''/secrets/app.env'' else path),
      files = [''/app/.env.template'' \<mapsto> Bytes example_template],
      write_error = Map.empty\<rparr>"

definition example_fs_link_copied :: filesystem where
  "example_fs_link_copied =
     \<lparr>link_target = (\<lambda>path. if path = ''/app/.env'' then ''/secrets/app.env'' else path),
      files = [''/app/.env.template'' \<mapsto> Bytes example_template,
               ''/secrets/app.env'' \<mapsto> Bytes example_template],
      write_error = Map.empty\<rparr>"

text \<open>Two constructors over a platform state that counts the URLs constructed. The first
  parses as \<open>example_URL\<close> does and counts; the second is an imagined one that rejects every
  second call, whatever the argument.\<close>

definition counting_URL :: "string \<Rightarrow> nat process \<Rightarrow> (js_error + URL) \<times> nat process" where
  "counting_URL s p = (example_URL s, p\<lparr>platform := Suc (platform p)\<rparr>)"

definition alternating_URL :: "string \<Rightarrow> nat process \<Rightarrow> (js_error + URL) \<times> nat process" where
  "alternating_URL s p =
     (if even (platform p) then example_URL s else Inl (Error ''Invalid URL''),
      p\<lparr>platform := Suc (platform p)\<rparr>)"

definition example_process :: "nat process" where
  "example_process = \<lparr>process_env = example_env_filled, platform = 0\<rparr>"

section \<open>Substring search\<close>

lemma startsWith_iff: "startsWith s t \<longleftrightarrow> (\<exists>r. s = t @ r)"
  by (induction s t rule: startsWith.induct) auto

lemma includes_iff: "includes_str s t \<longleftrightarrow> (\<exists>p r. s = p @ t @ r)"
proof (induction s)
  case Nil
  then show ?case by auto
next
  case (Cons d ds)
  show ?case
  proof
    assume "includes_str (d # ds) t"
    then consider "startsWith (d # ds) t" | "includes_str ds t" by auto
    then show "\<exists>p r. d # ds = p @ t @ r"
    proof cases
      case 1
      then obtain r where "d # ds = t @ r" by (auto simp: startsWith_iff)
      then have "d # ds = [] @ t @ r" by simp
      then show ?thesis by blast
    next
      case 2
      then obtain p r where "ds = p @ t @ r" using Cons.IH by blast
      then have "d # ds = (d # p) @ t @ r" by simp
      then show ?thesis by blast
    qed
  next
    assume "\<exists>p r. d # ds = p @ t @ r"
    then obtain p r where eq: "d # ds = p @ t @ r" by blast
    show "includes_str (d # ds) t"
    proof (cases p)
      case Nil
      with eq have "startsWith (d # ds) t" by (auto simp: startsWith_iff)
      then show ?thesis by simp
    next
      case (Cons e es)
      with eq have "ds = es @ t @ r" by simp
      then have "includes_str ds t" using Cons.IH by blast
      then show ?thesis by simp
    qed
  qed
qed

lemma validateEnvironmentVariables_loop_map:
  "validateEnvironmentVariables_loop env names results =
     results @ map (\<lambda>varName. envVarResult varName (env varName)) names"
  by (induction names arbitrary: results) auto

lemma validateEnvironmentVariables_map:
  "validateEnvironmentVariables env =
     map (\<lambda>varName. envVarResult varName (env varName)) requiredVars"
  by (simp add: validateEnvironmentVariables_def validateEnvironmentVariables_loop_map)

lemma validateEnvironmentVariables_nth:
  "i < length requiredVars \<Longrightarrow>
     validateEnvironmentVariables env ! i = envVarResult (requiredVars ! i) (env (requiredVars ! i))"
  by (simp add: validateEnvironmentVariables_map)

lemma envVarResult_cases:
  "((val = None \<or> val = Some []) \<longrightarrow>
      envVarResult n val = \<lparr>success = False,
         message = cross_mark @ '' Missing required environment variable: '' @ n\<rparr>) \<and>
   (\<forall>v. val = Some v \<and> v \<noteq> [] \<and>
        (includes_str v ''your_'' \<or> includes_str v ''_here'' \<or>
         v = ''your_google_client_id'' \<or> v = ''your_google_client_secret'') \<longrightarrow>
      envVarResult n val = \<lparr>success = False,
         message = cross_mark @ '' Environment variable '' @ n @
           '' contains placeholder value. Please update with actual Google OAuth credentials.''\<rparr>) \<and>
   (\<forall>v. val = Some v \<and> v \<noteq> [] \<and>
        \<not> (includes_str v ''your_'' \<or> includes_str v ''_here'' \<or>
           v = ''your_google_client_id'' \<or> v = ''your_google_client_secret'') \<longrightarrow>
      envVarResult n val = \<lparr>success = True,
         message = check_mark @ '' '' @ n @ '' is configured''\<rparr>)"
  unfolding envVarResult_def placeholder_condition_def by auto

section \<open>Decoding UTF-8\<close>

lemma utf8_decode_valid: "valid_utf8 bs \<Longrightarrow> utf8_decode bs = bs"
proof (induction bs rule: valid_utf8.induct)
  case 1
  then show ?case by simp
next
  case (2 b bs)
  show ?case
  proof (cases "in_range b 0x00 0x7F")
    case True
    with 2 show ?thesis by simp
  next
    case ascii: False
    show ?thesis
    proof (cases "in_range b 0xC2 0xDF")
      case True
      with ascii "2.prems" obtain c cs where bs: "bs = c # cs"
        and c: "in_range c 0x80 0xBF" and rest: "valid_utf8 cs"
        by (cases bs) auto
      have "utf8_decode cs = cs"
        using "2.IH"(2) [OF ascii True bs rest] .
      with ascii True bs c show ?thesis by simp
    next
      case two: False
      show ?thesis
      proof (cases "in_range b 0xE0 0xEF")
        case True
        with ascii two "2.prems" obtain c d ds where bs: "bs = c # d # ds"
          and c: "in_range c (second_lower b) (second_upper b)"
          and d: "in_range d 0x80 0xBF" and rest: "valid_utf8 ds"
          by (cases bs; cases "tl bs") auto
        have "utf8_decode ds = ds"
          using "2.IH"(3) [OF ascii two True bs refl rest] .
        with ascii two True bs c d show ?thesis by simp
      next
        case three: False
        show ?thesis
        proof (cases "in_range b 0xF0 0xF4")
          case True
          with ascii two three "2.prems" obtain c d e es where bs: "bs = c # d # e # es"
            and c: "in_range c (second_lower b) (second_upper b)"
            and d: "in_range d 0x80 0xBF" and e: "in_range e 0x80 0xBF"
            and rest: "valid_utf8 es"
            by (cases bs; cases "tl bs"; cases "tl (tl bs)") auto
          have "utf8_decode es = es"
            using "2.IH"(4) [OF ascii two three True bs refl refl rest] .
          with ascii two three True bs c d e show ?thesis by simp
        next
          case False
          with ascii two three "2.prems" show ?thesis by simp
        qed
      qed
    qed
  qed
qed

lemma valid_utf8_replacement: "valid_utf8 (replacement @ bs) = valid_utf8 bs"
  by (simp add: replacement_def in_range_def second_lower_def second_upper_def)

lemma valid_utf8_replacement_only: "valid_utf8 replacement"
  using valid_utf8_replacement [of "[]"] by simp

lemma valid_utf8_decode: "valid_utf8 (utf8_decode bs)"
  by (induction bs rule: utf8_decode.induct)
    (simp_all add: valid_utf8_replacement valid_utf8_replacement_only split: list.splits)

lemma utf8_decode_idem: "utf8_decode (utf8_decode bs) = utf8_decode bs"
  by (rule utf8_decode_valid [OF valid_utf8_decode])

lemma utf8_decode_example_not_utf8:
  "utf8_decode [CHR 0xFF, CHR 0x41, CHR 0x0A] = [CHR 0xEF, CHR 0xBF, CHR 0xBD, CHR 0x41, CHR 0x0A]"
  by (simp add: in_range_def replacement_def)

lemma valid_utf8_example_template: "valid_utf8 example_template"
  by (simp add: example_template_def newline_def in_range_def)

lemma utf8_decode_example_config:
  "utf8_decode ''modules: [{ resolve: '@medusajs/medusa/auth-google' , options: {} }]'' =
     ''modules: [{ resolve: '@medusajs/medusa/auth-google' , options: {} }]''"
  by (rule utf8_decode_valid) (simp add: in_range_def)

section \<open>The environment-variable check\<close>

text \<open>
  Claim C2. The environment-variable check returns exactly three results, one for each of
  GOOGLE_CLIENT_ID, GOOGLE_CLIENT_SECRET, GOOGLE_CALLBACK_URL in that order. The result at
  position \<open>i\<close> is a failure naming the variable when the variable is unset or empty; a
  failure citing a placeholder when the value is non-empty and contains \<open>your_\<close>, contains
  \<open>_here\<close> or equals one of the two placeholder literals; and a success otherwise.
\<close>

theorem validateEnvironmentVariables_three_results:
  "length (validateEnvironmentVariables env) = 3 \<and>
   (\<forall>i<3.
      let varName = [''GOOGLE_CLIENT_ID'', ''GOOGLE_CLIENT_SECRET'', ''GOOGLE_CALLBACK_URL''] ! i;
          result = validateEnvironmentVariables env ! i
      in
        ((env varName = None \<or> env varName = Some []) \<longrightarrow>
           result = \<lparr>success = False,
              message = cross_mark @ '' Missing required environment variable: '' @ varName\<rparr>) \<and>
        (\<forall>v. env varName = Some v \<and> v \<noteq> [] \<and>
             (includes_str v ''your_'' \<or> includes_str v ''_here'' \<or>
              v = ''your_google_client_id'' \<or> v = ''your_google_client_secret'') \<longrightarrow>
           result = \<lparr>success = False,
              message = cross_mark @ '' Environment variable '' @ varName @
                '' contains placeholder value. Please update with actual Google OAuth credentials.''\<rparr>) \<and>
        (\<forall>v. env varName = Some v \<and> v \<noteq> [] \<and>
             \<not> (includes_str v ''your_'' \<or> includes_str v ''_here'' \<or>
                v = ''your_google_client_id'' \<or> v = ''your_google_client_secret'') \<longrightarrow>
           result = \<lparr>success = True,
              message = check_mark @ '' '' @ varName @ '' is configured''\<rparr>))"
proof -
  have len: "length (validateEnvironmentVariables env) = 3"
    by (simp add: validateEnvironmentVariables_map requiredVars_def)
  have nth: "validateEnvironmentVariables env ! i =
      envVarResult ([''GOOGLE_CLIENT_ID'', ''GOOGLE_CLIENT_SECRET'', ''GOOGLE_CALLBACK_URL''] ! i)
        (env ([''GOOGLE_CLIENT_ID'', ''GOOGLE_CLIENT_SECRET'', ''GOOGLE_CALLBACK_URL''] ! i))"
    if "i < 3" for i
    using that validateEnvironmentVariables_nth [of i env] by (simp add: requiredVars_def)
  show ?thesis
    unfolding Let_def using len envVarResult_cases nth by presburger
qed

theorem validateEnvironmentVariables_three_results_witness:
  "length (validateEnvironmentVariables example_env_mixed) = 3 \<and>
   validateEnvironmentVariables example_env_mixed ! 0 =
     \<lparr>success = False,
      message = cross_mark @ '' Missing required environment variable: GOOGLE_CLIENT_ID''\<rparr> \<and>
   validateEnvironmentVariables example_env_mixed ! 1 =
     \<lparr>success = False,
      message = cross_mark @
        '' Environment variable GOOGLE_CLIENT_SECRET contains placeholder value. Please update with actual Google OAuth credentials.''\<rparr> \<and>
   validateEnvironmentVariables example_env_mixed ! 2 =
     \<lparr>success = True, message = check_mark @ '' GOOGLE_CALLBACK_URL is configured''\<rparr>"
proof -
  note at = validateEnvironmentVariables_three_results
    [of example_env_mixed, THEN conjunct2, THEN spec]
  have "length (validateEnvironmentVariables example_env_mixed) = 3"
    using validateEnvironmentVariables_three_results [of example_env_mixed] by (rule conjunct1)
  moreover have "validateEnvironmentVariables example_env_mixed ! 0 =
     \<lparr>success = False,
      message = cross_mark @ '' Missing required environment variable: GOOGLE_CLIENT_ID''\<rparr>"
    using at [of 0] by (simp add: example_env_mixed_def Let_def)
  moreover have "validateEnvironmentVariables example_env_mixed ! 1 =
     \<lparr>success = False,
      message = cross_mark @
        '' Environment variable GOOGLE_CLIENT_SECRET contains placeholder value. Please update with actual Google OAuth credentials.''\<rparr>"
    using at [of 1] by (simp add: example_env_mixed_def Let_def)
  moreover have "validateEnvironmentVariables example_env_mixed ! 2 =
     \<lparr>success = True, message = check_mark @ '' GOOGLE_CALLBACK_URL is configured''\<rparr>"
    using at [of 2] by (simp add: example_env_mixed_def Let_def)
  ultimately show ?thesis by blast
qed

text \<open>
  Claim C9. The placeholder test of the check equals the two substring searches alone, for
  every value: each of the two literals it also compares with contains \<open>your_\<close>, so the
  two comparisons add nothing.
\<close>

theorem placeholder_condition_substrings_only:
  "placeholder_condition v = placeholder_substrings_only v \<and>
   includes_str ''your_google_client_id'' ''your_'' \<and>
   includes_str ''your_google_client_secret'' ''your_''"
proof -
  have id: "includes_str ''your_google_client_id'' ''your_''" by simp
  have secret: "includes_str ''your_google_client_secret'' ''your_''" by simp
  show ?thesis using id secret
    by (auto simp: placeholder_condition_def placeholder_substrings_only_def)
qed

text \<open>
  Claim C10. The environment-variable check validates no format: for each of the three
  variables, a value that is non-empty and contains neither \<open>your_\<close> nor \<open>_here\<close> gives
  the success result with the message that the variable is configured, whatever else the
  value is (blank characters only, not a credential, not a URL).
\<close>

theorem validateEnvironmentVariables_no_format_validation:
  assumes "i < length requiredVars"
    and "env (requiredVars ! i) = Some v"
    and "v \<noteq> []"
    and "\<not> includes_str v ''your_''"
    and "\<not> includes_str v ''_here''"
  shows "validateEnvironmentVariables env ! i =
     \<lparr>success = True, message = check_mark @ '' '' @ requiredVars ! i @ '' is configured''\<rparr>"
proof -
  have "v \<noteq> ''your_google_client_id''" "v \<noteq> ''your_google_client_secret''"
    using assms(4) by auto
  then have "\<not> placeholder_condition v"
    using assms(4,5) by (simp add: placeholder_condition_def)
  then show ?thesis
    using assms(1,2,3) by (simp add: validateEnvironmentVariables_nth envVarResult_def)
qed

theorem validateEnvironmentVariables_no_format_validation_witness:
  "validateEnvironmentVariables
      [''GOOGLE_CLIENT_ID'' \<mapsto> ''   '', ''GOOGLE_CALLBACK_URL'' \<mapsto> ''not-a-url''] ! 0 =
     \<lparr>success = True, message = check_mark @ '' GOOGLE_CLIENT_ID is configured''\<rparr> \<and>
   validateEnvironmentVariables
      [''GOOGLE_CLIENT_ID'' \<mapsto> ''   '', ''GOOGLE_CALLBACK_URL'' \<mapsto> ''not-a-url''] ! 2 =
     \<lparr>success = True, message = check_mark @ '' GOOGLE_CALLBACK_URL is configured''\<rparr>"
  using
    validateEnvironmentVariables_no_format_validation
      [of 0 "[''GOOGLE_CLIENT_ID'' \<mapsto> ''   '', ''GOOGLE_CALLBACK_URL'' \<mapsto> ''not-a-url'']" "''   ''"]
    validateEnvironmentVariables_no_format_validation
      [of 2 "[''GOOGLE_CLIENT_ID'' \<mapsto> ''   '', ''GOOGLE_CALLBACK_URL'' \<mapsto> ''not-a-url'']"
         "''not-a-url''"]
  by (simp add: requiredVars_def)

section \<open>The callback-URL check\<close>

lemma validateCallbackUrl_unset:
  "env ''GOOGLE_CALLBACK_URL'' = None \<or> env ''GOOGLE_CALLBACK_URL'' = Some [] \<Longrightarrow>
   validateCallbackUrl new_URL env =
     Inr \<lparr>success = False, message = cross_mark @ '' GOOGLE_CALLBACK_URL is not set''\<rparr>"
  by (auto simp: validateCallbackUrl_def Let_def)

lemma validateCallbackUrl_throws:
  "env ''GOOGLE_CALLBACK_URL'' = Some v \<Longrightarrow> v \<noteq> [] \<Longrightarrow> new_URL v = Inl thrown \<Longrightarrow>
   validateCallbackUrl new_URL env =
     Inr \<lparr>success = False,
          message = cross_mark @ '' GOOGLE_CALLBACK_URL is not a valid URL: '' @ v\<rparr>"
  by (simp add: validateCallbackUrl_def Let_def try_catch_def)

lemma validateCallbackUrl_parsed:
  "env ''GOOGLE_CALLBACK_URL'' = Some v \<Longrightarrow> v \<noteq> [] \<Longrightarrow> new_URL v = Inr url \<Longrightarrow>
   validateCallbackUrl new_URL env =
     (if includes_str (pathname url) ''/auth/callback'' then
        Inr \<lparr>success = True,
             message = check_mark @ '' GOOGLE_CALLBACK_URL is properly formatted: '' @ v\<rparr>
      else
        Inr \<lparr>success = False,
             message = cross_mark @
               '' GOOGLE_CALLBACK_URL should end with '/auth/callback', got: '' @ pathname url\<rparr>)"
  by (simp add: validateCallbackUrl_def Let_def try_catch_def)

lemma validateCallbackUrl_total: "\<exists>result. validateCallbackUrl new_URL env = Inr result"
  by (simp add: validateCallbackUrl_def try_catch_def Let_def split: sum.splits)

text \<open>
  Claim C3. When the value of GOOGLE_CALLBACK_URL parses (it is non-empty and the URL
  constructor returns an object), the check returns a result that is a success exactly when
  the path of the parsed URL contains \<open>/auth/callback\<close> somewhere (text may come before
  and after it). A success message ends with the value as given; a failure message names the
  expected suffix and ends with the path found.
\<close>

theorem validateCallbackUrl_path_check:
  assumes "env ''GOOGLE_CALLBACK_URL'' = Some v"
    and "v \<noteq> []"
    and "new_URL v = Inr url"
  shows "\<exists>result. validateCallbackUrl new_URL env = Inr result \<and>
     (success result \<longleftrightarrow> includes_str (pathname url) ''/auth/callback'') \<and>
     (success result \<longleftrightarrow>
        (\<exists>before after. pathname url = before @ ''/auth/callback'' @ after)) \<and>
     (success result \<longrightarrow>
        message result = check_mark @ '' GOOGLE_CALLBACK_URL is properly formatted: '' @ v) \<and>
     (\<not> success result \<longrightarrow>
        message result = cross_mark @
          '' GOOGLE_CALLBACK_URL should end with '/auth/callback', got: '' @ pathname url)"
  using validateCallbackUrl_parsed [of env v new_URL url] assms
  by (auto simp: includes_iff)

theorem validateCallbackUrl_path_check_witness:
  "validateCallbackUrl example_URL
      [''GOOGLE_CALLBACK_URL'' \<mapsto> ''http://localhost:8000/auth/callback''] =
     Inr \<lparr>success = True,
          message = check_mark @
            '' GOOGLE_CALLBACK_URL is properly formatted: http://localhost:8000/auth/callback''\<rparr> \<and>
   validateCallbackUrl example_URL
      [''GOOGLE_CALLBACK_URL'' \<mapsto> ''http://localhost:8000/wrong/path''] =
     Inr \<lparr>success = False,
          message = cross_mark @
            '' GOOGLE_CALLBACK_URL should end with '/auth/callback', got: /wrong/path''\<rparr> \<and>
   validateCallbackUrl example_URL
      [''GOOGLE_CALLBACK_URL'' \<mapsto>
         ''https://shop.example/api/auth/callback/google?prompt=none''] =
     Inr \<lparr>success = True,
          message = check_mark @
            '' GOOGLE_CALLBACK_URL is properly formatted: https://shop.example/api/auth/callback/google?prompt=none''\<rparr>"
proof -
  have a: "validateCallbackUrl example_URL
      [''GOOGLE_CALLBACK_URL'' \<mapsto> ''http://localhost:8000/auth/callback''] =
     Inr \<lparr>success = True,
          message = check_mark @
            '' GOOGLE_CALLBACK_URL is properly formatted: http://localhost:8000/auth/callback''\<rparr>"
  proof -
    have p1: "[''GOOGLE_CALLBACK_URL'' \<mapsto> ''http://localhost:8000/auth/callback'']
        ''GOOGLE_CALLBACK_URL'' = Some ''http://localhost:8000/auth/callback''"
      by simp
    have p2: "''http://localhost:8000/auth/callback'' \<noteq> []"
      by simp
    have p3: "example_URL ''http://localhost:8000/auth/callback'' =
        Inr \<lparr>pathname = ''/auth/callback''\<rparr>"
      by (simp add: example_URL_def)
    obtain r where
      "validateCallbackUrl example_URL
         [''GOOGLE_CALLBACK_URL'' \<mapsto> ''http://localhost:8000/auth/callback''] = Inr r"
      and "success r \<longleftrightarrow>
        includes_str (pathname \<lparr>pathname = ''/auth/callback''\<rparr>) ''/auth/callback''"
      and "success r \<longrightarrow> message r =
        check_mark @ '' GOOGLE_CALLBACK_URL is properly formatted: '' @
          ''http://localhost:8000/auth/callback''"
      using validateCallbackUrl_path_check
        [of "[''GOOGLE_CALLBACK_URL'' \<mapsto> ''http://localhost:8000/auth/callback'']"
          "''http://localhost:8000/auth/callback''" example_URL
          "\<lparr>pathname = ''/auth/callback''\<rparr>", OF p1 p2 p3]
      by blast
    then show ?thesis by (cases r) simp
  qed
  have b: "validateCallbackUrl example_URL
      [''GOOGLE_CALLBACK_URL'' \<mapsto> ''http://localhost:8000/wrong/path''] =
     Inr \<lparr>success = False,
          message = cross_mark @
            '' GOOGLE_CALLBACK_URL should end with '/auth/callback', got: /wrong/path''\<rparr>"
  proof -
    have p1: "[''GOOGLE_CALLBACK_URL'' \<mapsto> ''http://localhost:8000/wrong/path'']
        ''GOOGLE_CALLBACK_URL'' = Some ''http://localhost:8000/wrong/path''"
      by simp
    have p2: "''http://localhost:8000/wrong/path'' \<noteq> []"
      by simp
    have p3: "example_URL ''http://localhost:8000/wrong/path'' =
        Inr \<lparr>pathname = ''/wrong/path''\<rparr>"
      by (simp add: example_URL_def)
    obtain r where
      "validateCallbackUrl example_URL
         [''GOOGLE_CALLBACK_URL'' \<mapsto> ''http://localhost:8000/wrong/path''] = Inr r"
      and "success r \<longleftrightarrow>
        includes_str (pathname \<lparr>pathname = ''/wrong/path''\<rparr>) ''/auth/callback''"
      and "\<not> success r \<longrightarrow> message r =
        cross_mark @ '' GOOGLE_CALLBACK_URL should end with '/auth/callback', got: '' @
          pathname \<lparr>pathname = ''/wrong/path''\<rparr>"
      using validateCallbackUrl_path_check
        [of "[''GOOGLE_CALLBACK_URL'' \<mapsto> ''http://localhost:8000/wrong/path'']"
          "''http://localhost:8000/wrong/path''" example_URL
          "\<lparr>pathname = ''/wrong/path''\<rparr>", OF p1 p2 p3]
      by blast
    then show ?thesis by (cases r) simp
  qed
  have c: "validateCallbackUrl example_URL
      [''GOOGLE_CALLBACK_URL'' \<mapsto>
         ''https://shop.example/api/auth/callback/google?prompt=none''] =
     Inr \<lparr>success = True,
          message = check_mark @
            '' GOOGLE_CALLBACK_URL is properly formatted: https://shop.example/api/auth/callback/google?prompt=none''\<rparr>"
  proof -
    have p1: "[''GOOGLE_CALLBACK_URL'' \<mapsto>
          ''https://shop.example/api/auth/callback/google?prompt=none'']
        ''GOOGLE_CALLBACK_URL'' =
        Some ''https://shop.example/api/auth/callback/google?prompt=none''"
      by simp
    have p2: "''https://shop.example/api/auth/callback/google?prompt=none'' \<noteq> []"
      by simp
    have p3: "example_URL ''https://shop.example/api/auth/callback/google?prompt=none'' =
        Inr \<lparr>pathname = ''/api/auth/callback/google''\<rparr>"
      by (simp add: example_URL_def)
    obtain r where
      "validateCallbackUrl example_URL
         [''GOOGLE_CALLBACK_URL'' \<mapsto>
            ''https://shop.example/api/auth/callback/google?prompt=none''] = Inr r"
      and "success r \<longleftrightarrow>
        includes_str (pathname \<lparr>pathname = ''/api/auth/callback/google''\<rparr>) ''/auth/callback''"
      and "success r \<longrightarrow> message r =
        check_mark @ '' GOOGLE_CALLBACK_URL is properly formatted: '' @
          ''https://shop.example/api/auth/callback/google?prompt=none''"
      using validateCallbackUrl_path_check
        [of "[''GOOGLE_CALLBACK_URL'' \<mapsto>
               ''https://shop.example/api/auth/callback/google?prompt=none'']"
          "''https://shop.example/api/auth/callback/google?prompt=none''" example_URL
          "\<lparr>pathname = ''/api/auth/callback/google''\<rparr>", OF p1 p2 p3]
      by blast
    then show ?thesis by (cases r) simp
  qed
  show ?thesis using a b c by blast
qed

text \<open>
  Claim C5. For every environment and every URL constructor the callback-URL check returns a
  result and throws nothing. When the variable is unset (or empty) the result is the failure
  that it is not set; when the constructor throws on the value, the error is caught and the
  result is the failure whose message ends with the value itself.
\<close>

theorem validateCallbackUrl_never_throws:
  "(\<exists>result. validateCallbackUrl new_URL env = Inr result) \<and>
   (env ''GOOGLE_CALLBACK_URL'' = None \<or> env ''GOOGLE_CALLBACK_URL'' = Some [] \<longrightarrow>
      validateCallbackUrl new_URL env =
        Inr \<lparr>success = False,
             message = cross_mark @ '' GOOGLE_CALLBACK_URL is not set''\<rparr>) \<and>
   (\<forall>v thrown.
      env ''GOOGLE_CALLBACK_URL'' = Some v \<and> v \<noteq> [] \<and> new_URL v = Inl thrown \<longrightarrow>
      validateCallbackUrl new_URL env =
        Inr \<lparr>success = False,
             message = cross_mark @ '' GOOGLE_CALLBACK_URL is not a valid URL: '' @ v\<rparr>)"
  using validateCallbackUrl_total validateCallbackUrl_unset validateCallbackUrl_throws
  by blast

theorem validateCallbackUrl_never_throws_witness:
  "validateCallbackUrl example_URL Map.empty =
     Inr \<lparr>success = False, message = cross_mark @ '' GOOGLE_CALLBACK_URL is not set''\<rparr> \<and>
   validateCallbackUrl example_URL [''GOOGLE_CALLBACK_URL'' \<mapsto> ''not-a-url''] =
     Inr \<lparr>success = False,
          message = cross_mark @ '' GOOGLE_CALLBACK_URL is not a valid URL: not-a-url''\<rparr>"
proof -
  have a: "validateCallbackUrl example_URL Map.empty =
     Inr \<lparr>success = False, message = cross_mark @ '' GOOGLE_CALLBACK_URL is not set''\<rparr>"
    using validateCallbackUrl_never_throws [of example_URL Map.empty] by simp
  have b: "validateCallbackUrl example_URL [''GOOGLE_CALLBACK_URL'' \<mapsto> ''not-a-url''] =
     Inr \<lparr>success = False,
          message = cross_mark @ '' GOOGLE_CALLBACK_URL is not a valid URL: not-a-url''\<rparr>"
    using validateCallbackUrl_never_throws
      [of example_URL "[''GOOGLE_CALLBACK_URL'' \<mapsto> ''not-a-url'']"]
    by (simp add: example_URL_def)
  show ?thesis using a b by blast
qed

section \<open>Evaluating the callback-URL check twice\<close>

text \<open>With a constructor that only computes, the step on the process state returns what
  \<open>validateCallbackUrl\<close> returns and leaves the state as it was.\<close>

lemma validateCallbackUrl_run_pure:
  "validateCallbackUrl_run (\<lambda>v p. (U v, p)) p = (validateCallbackUrl U (process_env p), p)"
  by (simp add: validateCallbackUrl_run_def validateCallbackUrl_def Let_def)

lemma validateCallbackUrl_run_env:
  assumes "\<forall>v p. process_env (snd (new_URL v p)) = process_env p"
  shows "process_env (snd (validateCallbackUrl_run new_URL p)) = process_env p"
proof (cases "process_env p ''GOOGLE_CALLBACK_URL'' = None \<or>
    process_env p ''GOOGLE_CALLBACK_URL'' = Some []")
  case True
  then show ?thesis by (auto simp: validateCallbackUrl_run_def Let_def)
next
  case False
  then have "snd (validateCallbackUrl_run new_URL p) =
      snd (new_URL (the (process_env p ''GOOGLE_CALLBACK_URL'')) p)"
    by (auto simp: validateCallbackUrl_run_def Let_def split_beta)
  then show ?thesis using assms by simp
qed

lemma validateCallbackUrl_run_result:
  assumes "\<forall>v p q. fst (new_URL v p) = fst (new_URL v q)"
    and "process_env q = process_env p"
  shows "fst (validateCallbackUrl_run new_URL q) = fst (validateCallbackUrl_run new_URL p)"
proof -
  have "fst (new_URL (the (process_env p ''GOOGLE_CALLBACK_URL'')) q) =
      fst (new_URL (the (process_env p ''GOOGLE_CALLBACK_URL'')) p)"
    using assms(1) by blast
  then show ?thesis
    using assms(2) by (auto simp: validateCallbackUrl_run_def Let_def split_beta)
qed

text \<open>
  Claim C8. Let the URL constructor give a result that depends on its argument only, and leave
  the environment alone (it may keep a state of its own). Then an evaluation of the
  callback-URL check leaves the environment as it found it; two evaluations in processes with
  the same environment return the same result, flag and message; and an evaluation that
  follows another one returns what the first one returned.
\<close>

theorem validateCallbackUrl_run_idempotent:
  assumes "\<forall>v p q. fst (new_URL v p) = fst (new_URL v q)"
    and "\<forall>v p. process_env (snd (new_URL v p)) = process_env p"
  shows "process_env (snd (validateCallbackUrl_run new_URL p)) = process_env p \<and>
     (process_env q = process_env p \<longrightarrow>
        fst (validateCallbackUrl_run new_URL q) = fst (validateCallbackUrl_run new_URL p)) \<and>
     fst (validateCallbackUrl_run new_URL (snd (validateCallbackUrl_run new_URL p))) =
       fst (validateCallbackUrl_run new_URL p)"
proof -
  have kept: "process_env (snd (validateCallbackUrl_run new_URL p)) = process_env p"
    using validateCallbackUrl_run_env [OF assms(2)] .
  have same: "fst (validateCallbackUrl_run new_URL q) = fst (validateCallbackUrl_run new_URL p)"
    if "process_env q = process_env p" for q
    using validateCallbackUrl_run_result [OF assms(1) that] .
  show ?thesis using kept same by blast
qed

theorem validateCallbackUrl_run_idempotent_witness:
  "fst (validateCallbackUrl_run counting_URL example_process) =
     Inr \<lparr>success = True,
          message = check_mark @
            '' GOOGLE_CALLBACK_URL is properly formatted: http://localhost:8000/auth/callback''\<rparr> \<and>
   platform (snd (validateCallbackUrl_run counting_URL example_process)) = 1 \<and>
   process_env (snd (validateCallbackUrl_run counting_URL example_process)) =
     process_env example_process \<and>
   fst (validateCallbackUrl_run counting_URL
          (snd (validateCallbackUrl_run counting_URL example_process))) =
     fst (validateCallbackUrl_run counting_URL example_process)"
proof -
  have by_argument: "\<forall>v p q. fst (counting_URL v p) = fst (counting_URL v q)"
    by (simp add: counting_URL_def)
  have env_kept: "\<forall>v p. process_env (snd (counting_URL v p)) = process_env p"
    by (simp add: counting_URL_def)
  have first: "validateCallbackUrl_run counting_URL example_process =
      (Inr \<lparr>success = True,
            message = check_mark @
              '' GOOGLE_CALLBACK_URL is properly formatted: http://localhost:8000/auth/callback''\<rparr>,
       example_process\<lparr>platform := Suc 0\<rparr>)"
    by (simp add: validateCallbackUrl_run_def Let_def try_catch_def counting_URL_def
        example_URL_def example_process_def example_env_filled_def)
  show ?thesis
    using validateCallbackUrl_run_idempotent
      [OF by_argument env_kept, of example_process example_process]
    by (simp add: first)
qed

text \<open>The two hypotheses are about the platform, whose constructor parses its argument and
  does nothing else. They are needed: with the imagined constructor that rejects every second
  call, the second evaluation returns another result than the first.\<close>

lemma validateCallbackUrl_run_alternating:
  "fst (validateCallbackUrl_run alternating_URL example_process) =
     Inr \<lparr>success = True,
          message = check_mark @
            '' GOOGLE_CALLBACK_URL is properly formatted: http://localhost:8000/auth/callback''\<rparr> \<and>
   fst (validateCallbackUrl_run alternating_URL
          (snd (validateCallbackUrl_run alternating_URL example_process))) =
     Inr \<lparr>success = False,
          message = cross_mark @
            '' GOOGLE_CALLBACK_URL is not a valid URL: http://localhost:8000/auth/callback''\<rparr>"
proof -
  have first: "validateCallbackUrl_run alternating_URL example_process =
      (Inr \<lparr>success = True,
            message = check_mark @
              '' GOOGLE_CALLBACK_URL is properly formatted: http://localhost:8000/auth/callback''\<rparr>,
       example_process\<lparr>platform := Suc 0\<rparr>)"
    by (simp add: validateCallbackUrl_run_def Let_def try_catch_def alternating_URL_def
        example_URL_def example_process_def example_env_filled_def)
  have second: "fst (validateCallbackUrl_run alternating_URL (example_process\<lparr>platform := Suc 0\<rparr>)) =
     Inr \<lparr>success = False,
          message = cross_mark @
            '' GOOGLE_CALLBACK_URL is not a valid URL: http://localhost:8000/auth/callback''\<rparr>"
    by (simp add: validateCallbackUrl_run_def Let_def try_catch_def alternating_URL_def
        example_process_def example_env_filled_def)
  show ?thesis by (simp add: first second)
qed

section \<open>The configuration-file check\<close>

lemma checkConfigFile_total: "\<exists>result. checkConfigFile cwd fs = Inr result"
  by (auto simp: checkConfigFile_def try_catch_def Let_def split: sum.splits)

text \<open>
  Claim C4. For every working directory and filesystem the configuration-file check returns
  a result and throws nothing. The result is a success exactly when \<open>medusa-config.ts\<close>
  exists, can be read, and its text contains \<open>@medusajs/medusa/auth-google\<close>. When the
  file is missing the result is the failure that it was not found; when reading throws, the
  result is the failure whose message carries the message of the error thrown.
\<close>

theorem checkConfigFile_verdict:
  "\<exists>result. checkConfigFile cwd fs = Inr result \<and>
     (success result \<longleftrightarrow>
        existsSync fs (resolve cwd ''medusa-config.ts'') \<and>
        (\<exists>configContent.
           readFileSync fs (resolve cwd ''medusa-config.ts'') = Inr configContent \<and>
           includes_str configContent ''@medusajs/medusa/auth-google'')) \<and>
     (\<not> existsSync fs (resolve cwd ''medusa-config.ts'') \<longrightarrow>
        result = \<lparr>success = False,
                  message = cross_mark @ '' medusa-config.ts file not found''\<rparr>) \<and>
     (\<forall>thrown. existsSync fs (resolve cwd ''medusa-config.ts'') \<and>
          readFileSync fs (resolve cwd ''medusa-config.ts'') = Inl thrown \<longrightarrow>
        result = \<lparr>success = False,
                  message = cross_mark @ '' Error reading medusa-config.ts: '' @
                    error_message thrown\<rparr>) \<and>
     (\<forall>configContent. existsSync fs (resolve cwd ''medusa-config.ts'') \<and>
          readFileSync fs (resolve cwd ''medusa-config.ts'') = Inr configContent \<and>
          \<not> includes_str configContent ''@medusajs/medusa/auth-google'' \<longrightarrow>
        result = \<lparr>success = False,
                  message = cross_mark @
                    '' Google Auth Module not found in medusa-config.ts''\<rparr>) \<and>
     (\<forall>configContent. existsSync fs (resolve cwd ''medusa-config.ts'') \<and>
          readFileSync fs (resolve cwd ''medusa-config.ts'') = Inr configContent \<and>
          includes_str configContent ''@medusajs/medusa/auth-google'' \<longrightarrow>
        result = \<lparr>success = True,
                  message = check_mark @
                    '' Google Auth Module is configured in medusa-config.ts''\<rparr>)"
proof (cases "existsSync fs (resolve cwd ''medusa-config.ts'')")
  case False
  then show ?thesis by (simp add: checkConfigFile_def try_catch_def Let_def)
next
  case True
  show ?thesis
  proof (cases "readFileSync fs (resolve cwd ''medusa-config.ts'')")
    case (Inl thrown)
    with True show ?thesis by (simp add: checkConfigFile_def try_catch_def Let_def)
  next
    case (Inr configContent)
    with True show ?thesis by (simp add: checkConfigFile_def try_catch_def Let_def)
  qed
qed

theorem checkConfigFile_verdict_witness:
  "checkConfigFile ''/app'' example_fs_configured =
     Inr \<lparr>success = True,
          message = check_mark @ '' Google Auth Module is configured in medusa-config.ts''\<rparr> \<and>
   checkConfigFile ''/app'' example_fs_empty =
     Inr \<lparr>success = False, message = cross_mark @ '' medusa-config.ts file not found''\<rparr> \<and>
   checkConfigFile ''/app'' example_fs_unreadable_config =
     Inr \<lparr>success = False,
          message = cross_mark @
            '' Error reading medusa-config.ts: EACCES: permission denied''\<rparr>"
proof -
  have ok: "checkConfigFile ''/app'' example_fs_configured =
     Inr \<lparr>success = True,
          message = check_mark @ '' Google Auth Module is configured in medusa-config.ts''\<rparr>"
  proof -
    have "existsSync example_fs_configured (resolve ''/app'' ''medusa-config.ts'')"
      and "readFileSync example_fs_configured (resolve ''/app'' ''medusa-config.ts'') =
        Inr ''modules: [{ resolve: '@medusajs/medusa/auth-google' , options: {} }]''"
      and "includes_str ''modules: [{ resolve: '@medusajs/medusa/auth-google' , options: {} }]''
        ''@medusajs/medusa/auth-google''"
      by (simp_all add: existsSync_def readFileSync_def resolve_def example_fs_configured_def
          utf8_decode_example_config in_range_def)
    then show ?thesis
      using checkConfigFile_verdict [of "''/app''" example_fs_configured] by force
  qed
  have missing: "checkConfigFile ''/app'' example_fs_empty =
     Inr \<lparr>success = False, message = cross_mark @ '' medusa-config.ts file not found''\<rparr>"
  proof -
    have "\<not> existsSync example_fs_empty (resolve ''/app'' ''medusa-config.ts'')"
      by (simp add: existsSync_def example_fs_empty_def)
    then show ?thesis
      using checkConfigFile_verdict [of "''/app''" example_fs_empty] by force
  qed
  have unreadable: "checkConfigFile ''/app'' example_fs_unreadable_config =
     Inr \<lparr>success = False,
          message = cross_mark @
            '' Error reading medusa-config.ts: EACCES: permission denied''\<rparr>"
  proof -
    have "existsSync example_fs_unreadable_config (resolve ''/app'' ''medusa-config.ts'')"
      and "readFileSync example_fs_unreadable_config (resolve ''/app'' ''medusa-config.ts'') =
        Inl (Error ''EACCES: permission denied'')"
      by (simp_all add: existsSync_def readFileSync_def resolve_def
          example_fs_unreadable_config_def)
    then show ?thesis
      using checkConfigFile_verdict [of "''/app''" example_fs_unreadable_config] by force
  qed
  show ?thesis using ok missing unreadable by blast
qed

section \<open>The report and the verdict\<close>

lemma validateEnvironmentVariables_list:
  "validateEnvironmentVariables env =
     [validateEnvironmentVariables env ! 0, validateEnvironmentVariables env ! 1,
      validateEnvironmentVariables env ! 2]"
  by (simp add: validateEnvironmentVariables_map requiredVars_def)

lemma main_cases:
  assumes "validateCallbackUrl new_URL env = Inr callbackResult"
    and "checkConfigFile cwd fs = Inr configResult"
  shows "\<exists>rest. main new_URL env cwd fs =
     Inr \<lparr>allResults = validateEnvironmentVariables env @ [callbackResult, configResult],
          console =
            ([Console_log (magnifying_glass @ '' Validating Google Auth Integration...'' @ newline),
              Console_log ''Environment Variables:''] @
             map (\<lambda>result. Console_log (''  '' @ message result))
               (validateEnvironmentVariables env) @
             [Console_log (newline @ ''Callback URL:''),
              Console_log (''  '' @ message callbackResult),
              Console_log (newline @ ''Configuration:''),
              Console_log (''  '' @ message configResult)]) @ rest,
          exit_code =
            (if filter (\<lambda>result. \<not> success result)
                  (validateEnvironmentVariables env @ [callbackResult, configResult]) = []
             then 0 else 1)\<rparr>"
proof (cases "filter (\<lambda>result. \<not> success result)
             (validateEnvironmentVariables env @ [callbackResult, configResult]) = []")
  case True
  then show ?thesis
    unfolding main_def Let_def assms sum.case length_0_conv
    by (simp only: simp_thms if_True) blast
next
  case False
  then show ?thesis
    unfolding main_def Let_def assms sum.case length_0_conv
    by (simp only: simp_thms if_False) blast
qed

lemma main_run_facts:
  assumes "validateCallbackUrl new_URL env = Inr callbackResult"
    and "checkConfigFile cwd fs = Inr configResult"
  shows "\<exists>run rest.
     main new_URL env cwd fs = Inr run \<and>
     allResults run = validateEnvironmentVariables env @ [callbackResult, configResult] \<and>
     console run =
       ([Console_log (magnifying_glass @ '' Validating Google Auth Integration...'' @ newline),
         Console_log ''Environment Variables:''] @
        map (\<lambda>result. Console_log (''  '' @ message result))
          (validateEnvironmentVariables env) @
        [Console_log (newline @ ''Callback URL:''),
         Console_log (''  '' @ message callbackResult),
         Console_log (newline @ ''Configuration:''),
         Console_log (''  '' @ message configResult)]) @ rest \<and>
     exit_code run =
       (if filter (\<lambda>result. \<not> success result)
             (validateEnvironmentVariables env @ [callbackResult, configResult]) = []
        then 0 else 1)"
  using main_cases [OF assms] by force

text \<open>The three checks and a whole run on the example inputs.\<close>

lemma example_env_filled_results:
  "validateEnvironmentVariables example_env_filled =
     [\<lparr>success = True, message = check_mark @ '' GOOGLE_CLIENT_ID is configured''\<rparr>,
      \<lparr>success = True, message = check_mark @ '' GOOGLE_CLIENT_SECRET is configured''\<rparr>,
      \<lparr>success = True, message = check_mark @ '' GOOGLE_CALLBACK_URL is configured''\<rparr>]"
  by (simp add: validateEnvironmentVariables_map requiredVars_def envVarResult_def
      placeholder_condition_def example_env_filled_def)

lemma example_env_mixed_results:
  "validateEnvironmentVariables example_env_mixed =
     [\<lparr>success = False,
       message = cross_mark @ '' Missing required environment variable: GOOGLE_CLIENT_ID''\<rparr>,
      \<lparr>success = False,
       message = cross_mark @
         '' Environment variable GOOGLE_CLIENT_SECRET contains placeholder value. Please update with actual Google OAuth credentials.''\<rparr>,
      \<lparr>success = True, message = check_mark @ '' GOOGLE_CALLBACK_URL is configured''\<rparr>]"
  by (simp add: validateEnvironmentVariables_map requiredVars_def envVarResult_def
      placeholder_condition_def example_env_mixed_def)

lemma example_callback_result:
  "validateCallbackUrl example_URL example_env_filled =
     Inr \<lparr>success = True,
          message = check_mark @
            '' GOOGLE_CALLBACK_URL is properly formatted: http://localhost:8000/auth/callback''\<rparr>"
  by (simp add: validateCallbackUrl_def Let_def try_catch_def example_URL_def
      example_env_filled_def)

lemma example_callback_result_mixed:
  "validateCallbackUrl example_URL example_env_mixed =
     Inr \<lparr>success = True,
          message = check_mark @
            '' GOOGLE_CALLBACK_URL is properly formatted: http://localhost:8000/auth/callback''\<rparr>"
  by (simp add: validateCallbackUrl_def Let_def try_catch_def example_URL_def
      example_env_mixed_def)

lemma example_config_result:
  "checkConfigFile ''/app'' example_fs_configured =
     Inr \<lparr>success = True,
          message = check_mark @ '' Google Auth Module is configured in medusa-config.ts''\<rparr>"
  by (simp add: checkConfigFile_def Let_def try_catch_def resolve_def existsSync_def
      readFileSync_def example_fs_configured_def utf8_decode_example_config in_range_def)

lemma example_main_mixed:
  "main example_URL example_env_mixed ''/app'' example_fs_configured =
     Inr \<lparr>allResults =
            [\<lparr>success = False,
              message = cross_mark @ '' Missing required environment variable: GOOGLE_CLIENT_ID''\<rparr>,
             \<lparr>success = False,
              message = cross_mark @
                '' Environment variable GOOGLE_CLIENT_SECRET contains placeholder value. Please update with actual Google OAuth credentials.''\<rparr>,
             \<lparr>success = True, message = check_mark @ '' GOOGLE_CALLBACK_URL is configured''\<rparr>,
             \<lparr>success = True,
              message = check_mark @
                '' GOOGLE_CALLBACK_URL is properly formatted: http://localhost:8000/auth/callback''\<rparr>,
             \<lparr>success = True,
              message = check_mark @ '' Google Auth Module is configured in medusa-config.ts''\<rparr>],
          console =
            [Console_log (magnifying_glass @ '' Validating Google Auth Integration...'' @ newline),
             Console_log ''Environment Variables:'',
             Console_log (''  '' @ cross_mark @
               '' Missing required environment variable: GOOGLE_CLIENT_ID''),
             Console_log (''  '' @ cross_mark @
               '' Environment variable GOOGLE_CLIENT_SECRET contains placeholder value. Please update with actual Google OAuth credentials.''),
             Console_log (''  '' @ check_mark @ '' GOOGLE_CALLBACK_URL is configured''),
             Console_log (newline @ ''Callback URL:''),
             Console_log (''  '' @ check_mark @
               '' GOOGLE_CALLBACK_URL is properly formatted: http://localhost:8000/auth/callback''),
             Console_log (newline @ ''Configuration:''),
             Console_log (''  '' @ check_mark @
               '' Google Auth Module is configured in medusa-config.ts''),
             Console_log (newline @ cross_mark @
               '' 2 validation(s) failed. Please fix the issues above.''),
             Console_log (newline @ ''Common fixes:''),
             Console_log
               ''- Copy .env.template to .env and fill in your Google OAuth credentials'',
             Console_log ''- Ensure GOOGLE_CALLBACK_URL ends with /auth/callback'',
             Console_log ''- Get Google OAuth credentials from Google Cloud Console'',
             Console_log (newline @
               ''For detailed setup instructions, see: ../GOOGLE_AUTH_SETUP.md'')],
          exit_code = 1\<rparr>"
  unfolding main_def Let_def example_env_mixed_results example_callback_result_mixed
    example_config_result
  by simp

text \<open>
  Claim C1. For every URL constructor, environment, working directory and filesystem,
  \<open>main\<close> runs to its exit with the five results (three of the environment variables, one
  of the callback URL, one of the configuration file), and the exit code is the conjunction
  of the five: 0 exactly when every result is a success, 1 exactly when at least one is not.
\<close>

theorem main_exit_code:
  "\<exists>run callbackResult configResult.
     main new_URL env cwd fs = Inr run \<and>
     validateCallbackUrl new_URL env = Inr callbackResult \<and>
     checkConfigFile cwd fs = Inr configResult \<and>
     length (validateEnvironmentVariables env @ [callbackResult, configResult]) = 5 \<and>
     (exit_code run = 0 \<or> exit_code run = 1) \<and>
     (exit_code run = 0 \<longleftrightarrow>
        (\<forall>result \<in> set (validateEnvironmentVariables env @ [callbackResult, configResult]).
           success result)) \<and>
     (exit_code run = 1 \<longleftrightarrow>
        (\<exists>result \<in> set (validateEnvironmentVariables env @ [callbackResult, configResult]).
           \<not> success result))"
proof -
  obtain callbackResult where cb: "validateCallbackUrl new_URL env = Inr callbackResult"
    using validateCallbackUrl_total by blast
  obtain configResult where cf: "checkConfigFile cwd fs = Inr configResult"
    using checkConfigFile_total by blast
  obtain run where run: "main new_URL env cwd fs = Inr run"
    and code: "exit_code run =
       (if filter (\<lambda>result. \<not> success result)
             (validateEnvironmentVariables env @ [callbackResult, configResult]) = []
        then 0 else 1)"
    using main_run_facts [OF cb cf] by blast
  have len: "length (validateEnvironmentVariables env @ [callbackResult, configResult]) = 5"
    by (simp add: validateEnvironmentVariables_map requiredVars_def)
  have empty: "filter (\<lambda>result. \<not> success result)
        (validateEnvironmentVariables env @ [callbackResult, configResult]) = [] \<longleftrightarrow>
      (\<forall>result \<in> set (validateEnvironmentVariables env @ [callbackResult, configResult]).
         success result)"
    by (simp only: filter_empty_conv not_not)
  have zero: "exit_code run = 0 \<longleftrightarrow>
      (\<forall>result \<in> set (validateEnvironmentVariables env @ [callbackResult, configResult]).
         success result)"
    using code empty by (simp split: if_splits)
  have one: "exit_code run = 1 \<longleftrightarrow>
      (\<exists>result \<in> set (validateEnvironmentVariables env @ [callbackResult, configResult]).
         \<not> success result)"
    using code empty by (simp split: if_splits)
  have either: "exit_code run = 0 \<or> exit_code run = 1"
    using code by (simp split: if_splits)
  show ?thesis using run cb cf len zero one either by blast
qed

theorem main_exit_code_witness:
  "(\<exists>run. main example_URL example_env_filled ''/app'' example_fs_configured = Inr run \<and>
      exit_code run = 0) \<and>
   (\<exists>run. main example_URL example_env_mixed ''/app'' example_fs_configured = Inr run \<and>
      exit_code run = 1)"
proof -
  have filled:
    "\<exists>run. main example_URL example_env_filled ''/app'' example_fs_configured = Inr run \<and>
      exit_code run = 0"
    using main_exit_code [of example_URL example_env_filled "''/app''" example_fs_configured]
    by (auto simp: example_env_filled_results example_callback_result example_config_result)
  have mixed:
    "\<exists>run. main example_URL example_env_mixed ''/app'' example_fs_configured = Inr run \<and>
      exit_code run = 1"
    using main_exit_code [of example_URL example_env_mixed "''/app''" example_fs_configured]
    by (auto simp: example_env_mixed_results example_callback_result_mixed
        example_config_result)
  show ?thesis using filled mixed by blast
qed

text \<open>
  Claim C6. In every run, \<open>allResults\<close> holds exactly five results: the three of the
  environment-variable check in their order, then the one of the callback-URL check, then
  the one of the configuration-file check. The report prints their messages in that order
  under the three headings.
\<close>

theorem main_allResults_order:
  "\<exists>run callbackResult configResult rest.
     main new_URL env cwd fs = Inr run \<and>
     validateCallbackUrl new_URL env = Inr callbackResult \<and>
     checkConfigFile cwd fs = Inr configResult \<and>
     length (validateEnvironmentVariables env) = 3 \<and>
     allResults run = validateEnvironmentVariables env @ [callbackResult, configResult] \<and>
     length (allResults run) = 5 \<and>
     console run =
       [Console_log (magnifying_glass @ '' Validating Google Auth Integration...'' @ newline),
        Console_log ''Environment Variables:'',
        Console_log (''  '' @ message (allResults run ! 0)),
        Console_log (''  '' @ message (allResults run ! 1)),
        Console_log (''  '' @ message (allResults run ! 2)),
        Console_log (newline @ ''Callback URL:''),
        Console_log (''  '' @ message (allResults run ! 3)),
        Console_log (newline @ ''Configuration:''),
        Console_log (''  '' @ message (allResults run ! 4))] @ rest"
proof -
  obtain callbackResult where cb: "validateCallbackUrl new_URL env = Inr callbackResult"
    using validateCallbackUrl_total by blast
  obtain configResult where cf: "checkConfigFile cwd fs = Inr configResult"
    using checkConfigFile_total by blast
  obtain run rest where run: "main new_URL env cwd fs = Inr run"
    and all: "allResults run = validateEnvironmentVariables env @ [callbackResult, configResult]"
    and con: "console run =
       ([Console_log (magnifying_glass @ '' Validating Google Auth Integration...'' @ newline),
         Console_log ''Environment Variables:''] @
        map (\<lambda>result. Console_log (''  '' @ message result))
          (validateEnvironmentVariables env) @
        [Console_log (newline @ ''Callback URL:''),
         Console_log (''  '' @ message callbackResult),
         Console_log (newline @ ''Configuration:''),
         Console_log (''  '' @ message configResult)]) @ rest"
    using main_run_facts [OF cb cf] by blast
  obtain r0 r1 r2 where env3: "validateEnvironmentVariables env = [r0, r1, r2]"
    using validateEnvironmentVariables_list by blast
  have len3: "length (validateEnvironmentVariables env) = 3"
    by (simp add: env3)
  have len5: "length (allResults run) = 5"
    by (simp add: all env3)
  have con': "console run =
       [Console_log (magnifying_glass @ '' Validating Google Auth Integration...'' @ newline),
        Console_log ''Environment Variables:'',
        Console_log (''  '' @ message (allResults run ! 0)),
        Console_log (''  '' @ message (allResults run ! 1)),
        Console_log (''  '' @ message (allResults run ! 2)),
        Console_log (newline @ ''Callback URL:''),
        Console_log (''  '' @ message (allResults run ! 3)),
        Console_log (newline @ ''Configuration:''),
        Console_log (''  '' @ message (allResults run ! 4))] @ rest"
    unfolding con all env3 by simp
  show ?thesis using run cb cf len3 all len5 con' by blast
qed

theorem main_allResults_order_witness:
  "\<exists>run rest.
     main example_URL example_env_filled ''/app'' example_fs_configured = Inr run \<and>
     allResults run =
       [\<lparr>success = True, message = check_mark @ '' GOOGLE_CLIENT_ID is configured''\<rparr>,
        \<lparr>success = True, message = check_mark @ '' GOOGLE_CLIENT_SECRET is configured''\<rparr>,
        \<lparr>success = True, message = check_mark @ '' GOOGLE_CALLBACK_URL is configured''\<rparr>,
        \<lparr>success = True,
         message = check_mark @
           '' GOOGLE_CALLBACK_URL is properly formatted: http://localhost:8000/auth/callback''\<rparr>,
        \<lparr>success = True,
         message = check_mark @ '' Google Auth Module is configured in medusa-config.ts''\<rparr>] \<and>
     console run =
       [Console_log (magnifying_glass @ '' Validating Google Auth Integration...'' @ newline),
        Console_log ''Environment Variables:'',
        Console_log (''  '' @ check_mark @ '' GOOGLE_CLIENT_ID is configured''),
        Console_log (''  '' @ check_mark @ '' GOOGLE_CLIENT_SECRET is configured''),
        Console_log (''  '' @ check_mark @ '' GOOGLE_CALLBACK_URL is configured''),
        Console_log (newline @ ''Callback URL:''),
        Console_log (''  '' @ check_mark @
          '' GOOGLE_CALLBACK_URL is properly formatted: http://localhost:8000/auth/callback''),
        Console_log (newline @ ''Configuration:''),
        Console_log (''  '' @ check_mark @
          '' Google Auth Module is configured in medusa-config.ts'')] @ rest"
  using main_allResults_order
    [of example_URL example_env_filled "''/app''" example_fs_configured]
  by (auto simp: example_env_filled_results example_callback_result example_config_result)

section \<open>The setup tool: helper facts\<close>

lemma setup_main_filesystem:
  "createEnvFile cwd fs = Inr (calls, fs') \<Longrightarrow> snd (setup_main cwd fs) = fs'"
  by (simp add: setup_main_def Let_def)

lemma writeFileSync_result:
  assumes "writeFileSync fs path content = Inr fs'"
  shows "files fs' = (files fs)(link_target fs path \<mapsto> Bytes (utf8_encode content)) \<and>
     link_target fs' = link_target fs \<and> write_error fs' = write_error fs"
  using assms by (auto simp: writeFileSync_def split: option.splits)

lemma createEnvFile_exists:
  "existsSync fs (resolve cwd ''.env'') \<Longrightarrow>
   createEnvFile cwd fs =
     Inr ([Console_log (''Checking for .env file at: '' @ resolve cwd ''.env''),
           Console_log (''Checking for .env.template file at: '' @ resolve cwd ''.env.template''),
           Console_log (clipboard @
             '' .env file already exists. Please manually update it with your Google OAuth credentials.''),
           Console_log
             ''   Required variables: GOOGLE_CLIENT_ID, GOOGLE_CLIENT_SECRET, GOOGLE_CALLBACK_URL''],
          fs)"
  by (simp add: createEnvFile_def Let_def)

lemma createEnvFile_copies:
  assumes "\<not> existsSync fs (resolve cwd ''.env'')"
    and "existsSync fs (resolve cwd ''.env.template'')"
    and "readFileSync fs (resolve cwd ''.env.template'') = Inr templateContent"
    and "writeFileSync fs (resolve cwd ''.env'') templateContent = Inr fs'"
  shows "createEnvFile cwd fs =
     Inr ([Console_log (''Checking for .env file at: '' @ resolve cwd ''.env''),
           Console_log (''Checking for .env.template file at: '' @ resolve cwd ''.env.template''),
           Console_log (check_mark @ '' Created .env file from template''),
           Console_log (memo @ '' Please update the following variables in your .env file:''),
           Console_log ''   - GOOGLE_CLIENT_ID: Your Google OAuth Client ID'',
           Console_log ''   - GOOGLE_CLIENT_SECRET: Your Google OAuth Client Secret'',
           Console_log
             ''   - GOOGLE_CALLBACK_URL: Usually http://localhost:8000/auth/callback for development'',
           Console_log [],
           Console_log (link_symbol @
             '' Get these credentials from: https://console.cloud.google.com/apis/credentials''),
           Console_log (open_book @
             '' For detailed setup instructions, see: ../GOOGLE_AUTH_SETUP.md'')],
          fs')"
  using assms by (simp add: createEnvFile_def Let_def try_catch_def)

lemma createEnvFile_read_fails:
  assumes "\<not> existsSync fs (resolve cwd ''.env'')"
    and "existsSync fs (resolve cwd ''.env.template'')"
    and "readFileSync fs (resolve cwd ''.env.template'') = Inl thrown"
  shows "createEnvFile cwd fs =
     Inr ([Console_log (''Checking for .env file at: '' @ resolve cwd ''.env''),
           Console_log (''Checking for .env.template file at: '' @ resolve cwd ''.env.template''),
           Console_error (cross_mark @ '' Error creating .env file:'') thrown],
          fs)"
  using assms by (simp add: createEnvFile_def Let_def try_catch_def)

section \<open>The setup tool copies the template once\<close>

text \<open>
  Claim C7, as amended. When \<open>.env\<close> already exists, \<open>createEnvFile\<close> logs that it
  exists and returns the filesystem as it was. When \<open>.env\<close> is absent, the template is a
  file that can be read, with the bytes \<open>templateBytes\<close>, and the write of \<open>.env\<close>
  succeeds, then \<open>.env\<close> exists afterwards and holds the UTF-8 encoding of the text decoded
  from the template: the very bytes of the template when these are well-formed UTF-8. It
  reads back as the text read from the template, and a second run on the filesystem left
  logs that the file exists and changes nothing.
\<close>

theorem createEnvFile_copy_or_noop:
  "(existsSync fs (resolve cwd ''.env'') \<longrightarrow>
      createEnvFile cwd fs =
        Inr ([Console_log (''Checking for .env file at: '' @ resolve cwd ''.env''),
              Console_log (''Checking for .env.template file at: '' @
                resolve cwd ''.env.template''),
              Console_log (clipboard @
                '' .env file already exists. Please manually update it with your Google OAuth credentials.''),
              Console_log
                ''   Required variables: GOOGLE_CLIENT_ID, GOOGLE_CLIENT_SECRET, GOOGLE_CALLBACK_URL''],
             fs)) \<and>
   (\<forall>templateBytes fs'.
      \<not> existsSync fs (resolve cwd ''.env'') \<and>
      files fs (link_target fs (resolve cwd ''.env.template'')) = Some (Bytes templateBytes) \<and>
      writeFileSync fs (resolve cwd ''.env'') (utf8_decode templateBytes) = Inr fs' \<longrightarrow>
      (\<exists>calls. createEnvFile cwd fs = Inr (calls, fs')) \<and>
      existsSync fs' (resolve cwd ''.env'') \<and>
      files fs' (link_target fs' (resolve cwd ''.env'')) =
        Some (Bytes (utf8_encode (utf8_decode templateBytes))) \<and>
      (valid_utf8 templateBytes \<longrightarrow>
         files fs' (link_target fs' (resolve cwd ''.env'')) = Some (Bytes templateBytes)) \<and>
      readFileSync fs' (resolve cwd ''.env'') =
        readFileSync fs (resolve cwd ''.env.template'') \<and>
      createEnvFile cwd fs' =
        Inr ([Console_log (''Checking for .env file at: '' @ resolve cwd ''.env''),
              Console_log (''Checking for .env.template file at: '' @
                resolve cwd ''.env.template''),
              Console_log (clipboard @
                '' .env file already exists. Please manually update it with your Google OAuth credentials.''),
              Console_log
                ''   Required variables: GOOGLE_CLIENT_ID, GOOGLE_CLIENT_SECRET, GOOGLE_CALLBACK_URL''],
             fs'))"
proof -
  have copy: "(\<exists>calls. createEnvFile cwd fs = Inr (calls, fs')) \<and>
      existsSync fs' (resolve cwd ''.env'') \<and>
      files fs' (link_target fs' (resolve cwd ''.env'')) =
        Some (Bytes (utf8_encode (utf8_decode templateBytes))) \<and>
      (valid_utf8 templateBytes \<longrightarrow>
         files fs' (link_target fs' (resolve cwd ''.env'')) = Some (Bytes templateBytes)) \<and>
      readFileSync fs' (resolve cwd ''.env'') =
        readFileSync fs (resolve cwd ''.env.template'') \<and>
      createEnvFile cwd fs' =
        Inr ([Console_log (''Checking for .env file at: '' @ resolve cwd ''.env''),
              Console_log (''Checking for .env.template file at: '' @
                resolve cwd ''.env.template''),
              Console_log (clipboard @
                '' .env file already exists. Please manually update it with your Google OAuth credentials.''),
              Console_log
                ''   Required variables: GOOGLE_CLIENT_ID, GOOGLE_CLIENT_SECRET, GOOGLE_CALLBACK_URL''],
             fs')"
    if absent: "\<not> existsSync fs (resolve cwd ''.env'')"
      and template:
        "files fs (link_target fs (resolve cwd ''.env.template'')) = Some (Bytes templateBytes)"
      and written: "writeFileSync fs (resolve cwd ''.env'') (utf8_decode templateBytes) = Inr fs'"
    for templateBytes fs'
  proof -
    have there: "existsSync fs (resolve cwd ''.env.template'')"
      by (simp add: existsSync_def template)
    have rd: "readFileSync fs (resolve cwd ''.env.template'') = Inr (utf8_decode templateBytes)"
      by (simp add: readFileSync_def template)
    have target: "link_target fs' = link_target fs"
      and stored: "files fs' =
        (files fs)(link_target fs (resolve cwd ''.env'') \<mapsto>
          Bytes (utf8_encode (utf8_decode templateBytes)))"
      using writeFileSync_result [OF written] by simp_all
    have holds: "files fs' (link_target fs' (resolve cwd ''.env'')) =
        Some (Bytes (utf8_encode (utf8_decode templateBytes)))"
      by (simp add: target stored)
    have ex: "existsSync fs' (resolve cwd ''.env'')"
      by (simp add: existsSync_def holds)
    have same: "files fs' (link_target fs' (resolve cwd ''.env'')) = Some (Bytes templateBytes)"
      if "valid_utf8 templateBytes"
      using holds utf8_decode_valid [OF that] by (simp add: utf8_encode_def)
    have "readFileSync fs' (resolve cwd ''.env'') = Inr (utf8_decode templateBytes)"
      by (simp add: readFileSync_def holds utf8_encode_def utf8_decode_idem)
    then have reread: "readFileSync fs' (resolve cwd ''.env'') =
        readFileSync fs (resolve cwd ''.env.template'')"
      by (simp only: rd)
    show ?thesis
      using createEnvFile_copies [OF absent there rd written] createEnvFile_exists [OF ex]
        ex holds same reread
      by blast
  qed
  show ?thesis
    using createEnvFile_exists [of fs cwd] copy by blast
qed

theorem createEnvFile_copy_or_noop_witness:
  "(\<exists>calls. createEnvFile ''/app'' example_fs_template = Inr (calls, example_fs_copied)) \<and>
   files example_fs_copied ''/app/.env'' = files example_fs_template ''/app/.env.template'' \<and>
   createEnvFile ''/app'' example_fs_copied =
     Inr ([Console_log ''Checking for .env file at: /app/.env'',
           Console_log ''Checking for .env.template file at: /app/.env.template'',
           Console_log (clipboard @
             '' .env file already exists. Please manually update it with your Google OAuth credentials.''),
           Console_log
             ''   Required variables: GOOGLE_CLIENT_ID, GOOGLE_CLIENT_SECRET, GOOGLE_CALLBACK_URL''],
          example_fs_copied) \<and>
   (\<exists>calls. createEnvFile ''/app'' example_fs_link = Inr (calls, example_fs_link_copied)) \<and>
   existsSync example_fs_link_copied ''/app/.env'' \<and>
   files example_fs_link_copied ''/secrets/app.env'' = Some (Bytes example_template)"
proof -
  have paths: "resolve ''/app'' ''.env'' = ''/app/.env''"
    "resolve ''/app'' ''.env.template'' = ''/app/.env.template''"
    by (simp_all add: resolve_def)
  have decoded: "utf8_decode example_template = example_template"
    by (rule utf8_decode_valid [OF valid_utf8_example_template])
  have plain:
    "\<not> existsSync example_fs_template (resolve ''/app'' ''.env'')"
    "files example_fs_template (link_target example_fs_template
        (resolve ''/app'' ''.env.template'')) = Some (Bytes example_template)"
    "writeFileSync example_fs_template (resolve ''/app'' ''.env'')
        (utf8_decode example_template) = Inr example_fs_copied"
    by (simp_all add: paths decoded existsSync_def writeFileSync_def utf8_encode_def
        example_fs_template_def example_fs_copied_def)
  have link:
    "\<not> existsSync example_fs_link (resolve ''/app'' ''.env'')"
    "files example_fs_link (link_target example_fs_link
        (resolve ''/app'' ''.env.template'')) = Some (Bytes example_template)"
    "writeFileSync example_fs_link (resolve ''/app'' ''.env'')
        (utf8_decode example_template) = Inr example_fs_link_copied"
    by (simp_all add: paths decoded existsSync_def writeFileSync_def utf8_encode_def
        example_fs_link_def example_fs_link_copied_def)
  have a: "(\<exists>calls. createEnvFile ''/app'' example_fs_template = Inr (calls, example_fs_copied)) \<and>
      createEnvFile ''/app'' example_fs_copied =
        Inr ([Console_log ''Checking for .env file at: /app/.env'',
              Console_log ''Checking for .env.template file at: /app/.env.template'',
              Console_log (clipboard @
                '' .env file already exists. Please manually update it with your Google OAuth credentials.''),
              Console_log
                ''   Required variables: GOOGLE_CLIENT_ID, GOOGLE_CLIENT_SECRET, GOOGLE_CALLBACK_URL''],
             example_fs_copied)"
    using createEnvFile_copy_or_noop [of example_fs_template "''/app''"] plain
    unfolding paths by auto
  have b: "(\<exists>calls. createEnvFile ''/app'' example_fs_link = Inr (calls, example_fs_link_copied)) \<and>
      existsSync example_fs_link_copied ''/app/.env''"
    using createEnvFile_copy_or_noop [of example_fs_link "''/app''"] link
    unfolding paths by auto
  have c: "files example_fs_copied ''/app/.env'' = files example_fs_template ''/app/.env.template''"
    "files example_fs_link_copied ''/secrets/app.env'' = Some (Bytes example_template)"
    by (simp_all add: example_fs_copied_def example_fs_template_def example_fs_link_copied_def)
  show ?thesis using a b c by blast
qed

text \<open>
  The claim as stated fails in two ways. With \<open>.env\<close> absent and a template that exists but
  cannot be read, \<open>createEnvFile\<close> catches the error, logs it and leaves the filesystem as
  it was, so no \<open>.env\<close> is created. With \<open>.env\<close> absent and a template holding the bytes
  FF 41 0A, which are not UTF-8, the copy succeeds and \<open>.env\<close> holds EF BF BD 41 0A, which
  are other bytes than the template's.
\<close>

theorem createEnvFile_counterexample:
  "\<not> existsSync example_fs_unreadable_template (resolve ''/app'' ''.env'') \<and>
   existsSync example_fs_unreadable_template (resolve ''/app'' ''.env.template'') \<and>
   createEnvFile ''/app'' example_fs_unreadable_template =
     Inr ([Console_log ''Checking for .env file at: /app/.env'',
           Console_log ''Checking for .env.template file at: /app/.env.template'',
           Console_error (cross_mark @ '' Error creating .env file:'')
             (Error ''EACCES: permission denied'')],
          example_fs_unreadable_template) \<and>
   \<not> existsSync example_fs_not_utf8 (resolve ''/app'' ''.env'') \<and>
   existsSync example_fs_not_utf8 (resolve ''/app'' ''.env.template'') \<and>
   files example_fs_not_utf8 ''/app/.env.template'' = Some (Bytes [CHR 0xFF, CHR 0x41, CHR 0x0A]) \<and>
   createEnvFile ''/app'' example_fs_not_utf8 =
     Inr ([Console_log ''Checking for .env file at: /app/.env'',
           Console_log ''Checking for .env.template file at: /app/.env.template'',
           Console_log (check_mark @ '' Created .env file from template''),
           Console_log (memo @ '' Please update the following variables in your .env file:''),
           Console_log ''   - GOOGLE_CLIENT_ID: Your Google OAuth Client ID'',
           Console_log ''   - GOOGLE_CLIENT_SECRET: Your Google OAuth Client Secret'',
           Console_log
             ''   - GOOGLE_CALLBACK_URL: Usually http://localhost:8000/auth/callback for development'',
           Console_log [],
           Console_log (link_symbol @
             '' Get these credentials from: https://console.cloud.google.com/apis/credentials''),
           Console_log (open_book @
             '' For detailed setup instructions, see: ../GOOGLE_AUTH_SETUP.md'')],
          example_fs_not_utf8_copied) \<and>
   files example_fs_not_utf8_copied ''/app/.env'' =
     Some (Bytes [CHR 0xEF, CHR 0xBF, CHR 0xBD, CHR 0x41, CHR 0x0A]) \<and>
   files example_fs_not_utf8_copied ''/app/.env'' \<noteq>
     files example_fs_not_utf8 ''/app/.env.template''"
proof -
  have paths: "resolve ''/app'' ''.env'' = ''/app/.env''"
    "resolve ''/app'' ''.env.template'' = ''/app/.env.template''"
    by (simp_all add: resolve_def)
  have unreadable:
    "\<not> existsSync example_fs_unreadable_template ''/app/.env''"
    "existsSync example_fs_unreadable_template ''/app/.env.template''"
    "readFileSync example_fs_unreadable_template ''/app/.env.template'' =
       Inl (Error ''EACCES: permission denied'')"
    by (simp_all add: existsSync_def readFileSync_def example_fs_unreadable_template_def)
  have not_utf8:
    "\<not> existsSync example_fs_not_utf8 ''/app/.env''"
    "existsSync example_fs_not_utf8 ''/app/.env.template''"
    "readFileSync example_fs_not_utf8 ''/app/.env.template'' =
       Inr [CHR 0xEF, CHR 0xBF, CHR 0xBD, CHR 0x41, CHR 0x0A]"
    "writeFileSync example_fs_not_utf8 ''/app/.env''
       [CHR 0xEF, CHR 0xBF, CHR 0xBD, CHR 0x41, CHR 0x0A] = Inr example_fs_not_utf8_copied"
    by (simp_all add: existsSync_def readFileSync_def writeFileSync_def utf8_encode_def
        in_range_def replacement_def example_fs_not_utf8_def example_fs_not_utf8_copied_def)
  have stored:
    "files example_fs_not_utf8 ''/app/.env.template'' = Some (Bytes [CHR 0xFF, CHR 0x41, CHR 0x0A])"
    "files example_fs_not_utf8_copied ''/app/.env'' =
       Some (Bytes [CHR 0xEF, CHR 0xBF, CHR 0xBD, CHR 0x41, CHR 0x0A])"
    by (simp_all add: example_fs_not_utf8_def example_fs_not_utf8_copied_def)
  have differ: "files example_fs_not_utf8_copied ''/app/.env'' \<noteq>
      files example_fs_not_utf8 ''/app/.env.template''"
    by (simp add: stored)
  show ?thesis
    using createEnvFile_read_fails [of example_fs_unreadable_template "''/app''"]
      createEnvFile_copies [of example_fs_not_utf8 "''/app''"]
      unreadable not_utf8 stored differ
    unfolding paths by simp
qed

end
